(* ===== verification/Prelude.thy ===== *)
theory Prelude
  imports Main "HOL-Library.Word" "HOL-Library.Multiset" "HOL-Library.List_Lexorder"
    "HOL-Library.Char_ord" "HOL-Library.Product_Lexorder" "HOL-Library.AList"
begin

text \<open>
  Shared vocabulary of the iftool model. A run of \<^verbatim>\<open>iftool.py\<close> is a single sequential
  pass whose only effects are text written to standard output and files written to disk,
  and which may stop at any point with a Python exception (\<^verbatim>\<open>KeyError\<close>,
  \<^verbatim>\<open>SystemExit\<close>, ...). A computation of the model is therefore a pair of the
  effects it performed, in order, and either the exception that stopped it or its value:
  the type \<open>'a prog\<close> below, with \<open>pbind\<close> sequencing two steps the way a Python
  statement follows another. Pure fallible steps (a dictionary lookup, a parse) return
  \<open>exc + 'a\<close> and are sequenced with \<open>sbind\<close>.
\<close>

named_theorems prog_simps "monad and trace equations used by the component proofs"

section \<open>Exceptions and effects\<close>

text \<open>The Python exceptions the program can raise, and \<^verbatim>\<open>sys.exit(n)\<close>. \<open>YAMLError\<close> stands for
  PyYAML's parser and constructor errors, \<open>RuntimeError\<close> for exceeding the interpreter's
  recursion limit.\<close>

datatype exc =
    KeyError
  | IndexError
  | TypeError
  | AttributeError
  | ValueError
  | UnicodeEncodeError
  | IOError
  | TemplateError
  | YAMLError
  | RuntimeError
  | SystemExit int

text \<open>An observable effect: text written to \<^verbatim>\<open>sys.stdout\<close>, or a file (re)written.\<close>

datatype event =
    Stdout string
  | WriteFile string string

type_synonym 'a prog = "event list \<times> (exc + 'a)"

section \<open>Sequencing\<close>

definition sbind :: "exc + 'a \<Rightarrow> ('a \<Rightarrow> exc + 'b) \<Rightarrow> exc + 'b" where
  "sbind r f = (case r of Inl e \<Rightarrow> Inl e | Inr a \<Rightarrow> f a)"

fun smap :: "('a \<Rightarrow> exc + 'b) \<Rightarrow> 'a list \<Rightarrow> exc + 'b list" where
  "smap f [] = Inr []"
| "smap f (x # xs) = sbind (f x) (\<lambda>y. sbind (smap f xs) (\<lambda>ys. Inr (y # ys)))"

definition ret :: "'a \<Rightarrow> 'a prog" where
  "ret x = ([], Inr x)"

definition throw :: "exc \<Rightarrow> 'a prog" where
  "throw e = ([], Inl e)"

definition lift :: "exc + 'a \<Rightarrow> 'a prog" where
  "lift r = ([], r)"

definition emit :: "event \<Rightarrow> unit prog" where
  "emit ev = ([ev], Inr ())"

definition pbind :: "'a prog \<Rightarrow> ('a \<Rightarrow> 'b prog) \<Rightarrow> 'b prog" where
  "pbind m f = (case snd m of
      Inl e \<Rightarrow> (fst m, Inl e)
    | Inr a \<Rightarrow> (fst m @ fst (f a), snd (f a)))"

text \<open>A Python \<^verbatim>\<open>for\<close> loop whose body has effects; the first exception ends it.\<close>

fun pfor :: "'a list \<Rightarrow> ('a \<Rightarrow> unit prog) \<Rightarrow> unit prog" where
  "pfor [] f = ret ()"
| "pfor (x # xs) f = pbind (f x) (\<lambda>_. pfor xs f)"

section \<open>Reading a trace\<close>

fun written :: "event list \<Rightarrow> (string \<times> string) list" where
  "written [] = []"
| "written (Stdout s # evs) = written evs"
| "written (WriteFile p c # evs) = (p, c) # written evs"

fun stdout_of :: "event list \<Rightarrow> string" where
  "stdout_of [] = []"
| "stdout_of (Stdout s # evs) = s @ stdout_of evs"
| "stdout_of (WriteFile p c # evs) = stdout_of evs"

text \<open>The files on disk after the effects, from the files before.\<close>

fun fs_after :: "event list \<Rightarrow> (string \<rightharpoonup> string) \<Rightarrow> (string \<rightharpoonup> string)" where
  "fs_after [] fs = fs"
| "fs_after (Stdout s # evs) fs = fs_after evs fs"
| "fs_after (WriteFile p c # evs) fs = fs_after evs (fs(p \<mapsto> c))"

text \<open>The process exit status: 0 on normal return, \<open>n\<close> for \<^verbatim>\<open>sys.exit(n)\<close>, 1 for an
  uncaught exception (the interpreter prints the traceback and exits with 1).\<close>

definition exit_status :: "'a prog \<Rightarrow> int" where
  "exit_status m = (case snd m of Inr _ \<Rightarrow> 0 | Inl (SystemExit n) \<Rightarrow> n | Inl _ \<Rightarrow> 1)"

section \<open>Monad and trace lemmas\<close>

lemma sbind_simps [simp, prog_simps]:
  "sbind (Inl e) f = Inl e"
  "sbind (Inr a) f = f a"
  by (simp_all add: sbind_def)

lemma sbind_eq_Inr_iff:
  "sbind r f = Inr b \<longleftrightarrow> (\<exists>a. r = Inr a \<and> f a = Inr b)"
  by (cases r) auto

lemma smap_Inr_length:
  "smap f xs = Inr ys \<Longrightarrow> length ys = length xs"
  by (induction xs arbitrary: ys) (auto simp: sbind_eq_Inr_iff)

lemma smap_map_Inr [simp]: "smap (\<lambda>x. Inr (g x)) xs = Inr (map g xs)"
  by (induction xs) simp_all

lemma ret_simps [simp, prog_simps]:
  "fst (ret x) = []" "snd (ret x) = Inr x"
  by (simp_all add: ret_def)

text \<open>The two components of a sequenced computation.\<close>

lemma fst_pbind:
  "fst (pbind m f) = fst m @ (case snd m of Inl e \<Rightarrow> [] | Inr a \<Rightarrow> fst (f a))"
  by (simp add: pbind_def split: sum.split)

lemma snd_pbind:
  "snd (pbind m f) = (case snd m of Inl e \<Rightarrow> Inl e | Inr a \<Rightarrow> snd (f a))"
  by (simp add: pbind_def split: sum.split)

lemma pbind_ret [simp, prog_simps]: "pbind (ret x) f = f x"
  by (simp add: pbind_def ret_def)

lemma pbind_throw [simp, prog_simps]: "pbind (throw e) f = throw e"
  by (simp add: pbind_def throw_def)

lemma pbind_lift [simp, prog_simps]:
  "pbind (lift (Inl e)) f = throw e"
  "pbind (lift (Inr a)) f = f a"
  by (simp_all add: pbind_def lift_def throw_def)

lemma pbind_emit [simp, prog_simps]:
  "pbind (emit ev) f = (ev # fst (f ()), snd (f ()))"
  by (simp add: pbind_def emit_def)

lemma pbind_right_ret [simp]: "pbind m ret = m"
  by (cases m) (simp add: pbind_def ret_def split: sum.split)

lemma pbind_assoc [prog_simps]:
  "pbind (pbind m f) g = pbind m (\<lambda>x. pbind (f x) g)"
  by (simp add: pbind_def split: sum.split)

lemma pbind_Inr_iff:
  "snd (pbind m f) = Inr b \<longleftrightarrow> (\<exists>a. snd m = Inr a \<and> snd (f a) = Inr b)"
  by (auto simp: snd_pbind split: sum.splits)

lemma written_append [simp]: "written (xs @ ys) = written xs @ written ys"
  by (induction xs rule: written.induct) simp_all

lemma stdout_of_append [simp]: "stdout_of (xs @ ys) = stdout_of xs @ stdout_of ys"
  by (induction xs rule: stdout_of.induct) simp_all

lemma fs_after_append [simp]: "fs_after (xs @ ys) fs = fs_after ys (fs_after xs fs)"
proof (induction xs arbitrary: fs)
  case Nil
  then show ?case by simp
next
  case (Cons ev xs)
  show ?case
  proof (cases ev)
    case (Stdout s)
    then show ?thesis by (simp add: Cons.IH)
  next
    case (WriteFile p c)
    then show ?thesis by (simp only: fs_after.simps append_Cons Cons.IH)
  qed
qed

lemma fs_after_no_writes: "written evs = [] \<Longrightarrow> fs_after evs fs = fs"
  by (induction evs fs rule: fs_after.induct) simp_all

text \<open>A program writes nothing when each of its parts writes nothing.\<close>

lemma written_pbind_Nil:
  assumes "written (fst m) = []" and "\<And>a. snd m = Inr a \<Longrightarrow> written (fst (f a)) = []"
  shows "written (fst (pbind m f)) = []"
  using assms by (simp add: fst_pbind split: sum.split)

lemma written_pfor_Nil:
  assumes "\<And>x. x \<in> set xs \<Longrightarrow> written (fst (f x)) = []"
  shows "written (fst (pfor xs f)) = []"
  using assms by (induction xs) (simp_all add: written_pbind_Nil)

lemma fst_pfor_append:
  "fst (pfor (xs @ ys) f) =
     fst (pfor xs f) @ (case snd (pfor xs f) of Inl e \<Rightarrow> [] | Inr u \<Rightarrow> fst (pfor ys f))"
  by (induction xs) (auto simp: fst_pbind snd_pbind split: sum.splits)

lemma snd_pfor_Inr_iff:
  "snd (pfor xs f) = Inr () \<longleftrightarrow> (\<forall>x \<in> set xs. snd (f x) = Inr ())"
proof (induction xs)
  case Nil
  then show ?case by simp
next
  case (Cons x xs)
  then show ?case by (auto simp: snd_pbind split: sum.splits)
qed

lemma pbind_Inl [prog_simps]: "snd m = Inl e \<Longrightarrow> pbind m f = (fst m, Inl e)"
  by (simp add: pbind_def)

lemma pbind_Nil_Inr [simp, prog_simps]: "pbind ([], Inr x) f = f x"
  by (simp add: pbind_def)

lemma written_lift [simp]: "written (fst (lift r)) = []"
  by (simp add: lift_def)

text \<open>A loop whose every iteration returns normally, and a loop stopped by the exception
  of one iteration after the ones before it have run.\<close>

lemma pfor_all_ok:
  "(\<And>x. x \<in> set xs \<Longrightarrow> f x = (g x, Inr ())) \<Longrightarrow> pfor xs f = (concat (map g xs), Inr ())"
  by (induction xs) (simp_all add: pbind_def ret_def)

lemma pfor_stops:
  assumes "\<And>x. x \<in> set pre \<Longrightarrow> f x = (g x, Inr ())" and "f y = (tr, Inl e)"
  shows "pfor (pre @ y # post) f = (concat (map g pre) @ tr, Inl e)"
  using assms(1) by (induction pre) (simp_all add: pbind_def assms(2))

text \<open>A pure step sequenced inside a program, and a loop over values computed first.\<close>

lemma pbind_lift_sbind [prog_simps]:
  "pbind (lift (sbind r f)) g = pbind (lift r) (\<lambda>a. pbind (lift (f a)) g)"
  by (cases r) simp_all

lemma pfor_lift_smap:
  "smap g xs = Inr ys \<Longrightarrow> pfor xs (\<lambda>x. pbind (lift (g x)) h) = pfor ys h"
  by (induction xs arbitrary: ys) (auto simp: sbind_eq_Inr_iff)

end
