(* ===== verification/PyRuntime.thy ===== *)
theory PyRuntime
  imports Prelude
begin

text \<open>
  The Python 2 values and built-in operations \<^verbatim>\<open>src/iftool.py\<close> relies on. The
  parsed YAML document is a \<open>pyval\<close>: PyYAML builds \<^verbatim>\<open>None\<close>, booleans, integers,
  strings, lists and dictionaries; a dictionary is kept as the association list of its
  entries in iteration order, since the code iterates over dictionaries and the order
  decides which host matches first. Every operation returns the exception CPython raises
  where it raises: subscripting a missing key, subscripting \<^verbatim>\<open>None\<close>, calling
  \<^verbatim>\<open>split\<close> on a non-string. Strings are code-point lists over the 8-bit \<open>char\<close>.
\<close>

section \<open>Values\<close>

datatype pyval =
    PNone
  | PBool bool
  | PInt int
  | PStr string
  | PList "pyval list"
  | PDict "(pyval \<times> pyval) list"

text \<open>Python's \<^verbatim>\<open>==\<close> on the hashable values: \<^verbatim>\<open>True == 1\<close>, \<^verbatim>\<open>False == 0\<close>.\<close>

definition py_num :: "pyval \<Rightarrow> int option" where
  "py_num v = (case v of PBool b \<Rightarrow> Some (of_bool b) | PInt i \<Rightarrow> Some i | _ \<Rightarrow> None)"

definition py_eq :: "pyval \<Rightarrow> pyval \<Rightarrow> bool" where
  "py_eq a b = (case (py_num a, py_num b) of (Some x, Some y) \<Rightarrow> x = y | _ \<Rightarrow> a = b)"

text \<open>The representative of a value's equality class: numbers as integers.\<close>

definition py_norm :: "pyval \<Rightarrow> pyval" where
  "py_norm v = (case py_num v of Some i \<Rightarrow> PInt i | None \<Rightarrow> v)"

definition py_hashable :: "pyval \<Rightarrow> bool" where
  "py_hashable v = (case v of PList _ \<Rightarrow> False | PDict _ \<Rightarrow> False | _ \<Rightarrow> True)"

text \<open>Truth value testing (\<^verbatim>\<open>if x:\<close>).\<close>

fun py_truthy :: "pyval \<Rightarrow> bool" where
  "py_truthy PNone = False"
| "py_truthy (PBool b) = b"
| "py_truthy (PInt i) = (i \<noteq> 0)"
| "py_truthy (PStr s) = (s \<noteq> [])"
| "py_truthy (PList xs) = (xs \<noteq> [])"
| "py_truthy (PDict kvs) = (kvs \<noteq> [])"

section \<open>Dictionaries\<close>

text \<open>\<^verbatim>\<open>d[k]\<close> on a dictionary and \<^verbatim>\<open>d[k] = v\<close>, which keeps the stored key when an
  equal key is present and appends a new entry otherwise.\<close>

fun dict_get :: "(pyval \<times> 'v) list \<Rightarrow> pyval \<Rightarrow> 'v option" where
  "dict_get [] k = None"
| "dict_get ((k', v) # kvs) k = (if py_eq k k' then Some v else dict_get kvs k)"

fun dict_set :: "(pyval \<times> 'v) list \<Rightarrow> pyval \<Rightarrow> 'v \<Rightarrow> (pyval \<times> 'v) list" where
  "dict_set [] k v = [(k, v)]"
| "dict_set ((k', v') # kvs) k v =
     (if py_eq k k' then (k', v) # kvs else (k', v') # dict_set kvs k v)"

text \<open>A dictionary CPython can hold: hashable keys, no two of them equal.\<close>

fun keys_distinct :: "pyval list \<Rightarrow> bool" where
  "keys_distinct [] = True"
| "keys_distinct (k # ks) = (list_all (\<lambda>k'. \<not> py_eq k k') ks \<and> keys_distinct ks)"

definition dict_wf :: "(pyval \<times> 'v) list \<Rightarrow> bool" where
  "dict_wf kvs \<longleftrightarrow> list_all py_hashable (map fst kvs) \<and> keys_distinct (map fst kvs)"

text \<open>Sequence indexing with Python's negative indices.\<close>

definition py_list_index :: "'a list \<Rightarrow> int \<Rightarrow> exc + 'a" where
  "py_list_index xs i =
     (let k = (if 0 \<le> i then i else i + int (length xs))
      in if k < 0 \<or> int (length xs) \<le> k then Inl IndexError else Inr (xs ! nat k))"

text \<open>Subscription \<^verbatim>\<open>c[k]\<close>: a dictionary raises \<^verbatim>\<open>KeyError\<close> for a missing key (and
  \<^verbatim>\<open>TypeError\<close> for an unhashable one), a list or string wants an integer index,
  anything else (\<^verbatim>\<open>None\<close> included) is not subscriptable.\<close>

definition py_getitem :: "pyval \<Rightarrow> pyval \<Rightarrow> exc + pyval" where
  "py_getitem c k =
     (case c of
        PDict kvs \<Rightarrow>
          (if \<not> py_hashable k then Inl TypeError
           else case dict_get kvs k of Some v \<Rightarrow> Inr v | None \<Rightarrow> Inl KeyError)
      | PList xs \<Rightarrow>
          (case py_num k of Some i \<Rightarrow> py_list_index xs i | None \<Rightarrow> Inl TypeError)
      | PStr s \<Rightarrow>
          (case py_num k of
             Some i \<Rightarrow> sbind (py_list_index s i) (\<lambda>ch. Inr (PStr [ch]))
           | None \<Rightarrow> Inl TypeError)
      | _ \<Rightarrow> Inl TypeError)"

text \<open>A chain of string-keyed subscriptions, \<^verbatim>\<open>c['a']['b']\<close>.\<close>

fun py_path :: "pyval \<Rightarrow> string list \<Rightarrow> exc + pyval" where
  "py_path c [] = Inr c"
| "py_path c (k # ks) = sbind (py_getitem c (PStr k)) (\<lambda>v. py_path v ks)"

text \<open>\<^verbatim>\<open>for x in c\<close>: a dictionary yields its keys, a list its elements, a string its
  characters; anything else is not iterable.\<close>

definition py_iter :: "pyval \<Rightarrow> exc + pyval list" where
  "py_iter c =
     (case c of
        PDict kvs \<Rightarrow> Inr (map fst kvs)
      | PList xs \<Rightarrow> Inr xs
      | PStr s \<Rightarrow> Inr (map (\<lambda>ch. PStr [ch]) s)
      | _ \<Rightarrow> Inl TypeError)"

section \<open>Ordering: \<^verbatim>\<open>sorted\<close>\<close>

text \<open>
  CPython 2 orders values of different types by a fixed rule: \<^verbatim>\<open>None\<close> first, then
  numbers (booleans as 0 and 1) by value, then other types by type name
  (\<^verbatim>\<open>dict\<close> \<open><\<close> \<^verbatim>\<open>list\<close> \<open><\<close> \<^verbatim>\<open>str\<close>), strings by code points. \<open>py_order_key\<close>
  maps a value to a key whose lexicographic order is that order on the values that can be
  dictionary keys; \<^verbatim>\<open>sorted\<close> is stable, as \<open>sort_key\<close> is.
\<close>

definition py_order_key :: "pyval \<Rightarrow> nat \<times> int \<times> string" where
  "py_order_key v =
     (case v of
        PNone \<Rightarrow> (0, 0, [])
      | PBool b \<Rightarrow> (1, of_bool b, [])
      | PInt i \<Rightarrow> (1, i, [])
      | PDict _ \<Rightarrow> (2, 0, [])
      | PList _ \<Rightarrow> (3, 0, [])
      | PStr s \<Rightarrow> (4, 0, s))"

definition py_sorted :: "pyval list \<Rightarrow> pyval list" where
  "py_sorted xs = sort_key py_order_key xs"

section \<open>Strings\<close>

text \<open>\<^verbatim>\<open>s.split('.')[0]\<close>: the part before the first dot.\<close>

definition split0 :: "string \<Rightarrow> string" where
  "split0 s = takeWhile (\<lambda>c. c \<noteq> CHR ''.'') s"

definition py_split0 :: "pyval \<Rightarrow> exc + string" where
  "py_split0 v = (case v of PStr s \<Rightarrow> Inr (split0 s) | _ \<Rightarrow> Inl AttributeError)"

text \<open>\<^verbatim>\<open>sep.join(xs)\<close>.\<close>

fun join_with :: "string \<Rightarrow> string list \<Rightarrow> string" where
  "join_with sep [] = []"
| "join_with sep [x] = x"
| "join_with sep (x # y # xs) = x @ sep @ join_with sep (y # xs)"

text \<open>Decimal notation of integers, as \<^verbatim>\<open>str(n)\<close> prints them.\<close>

fun dec_nat :: "nat \<Rightarrow> string" where
  "dec_nat n =
     (if n < 10 then [char_of (48 + n)] else dec_nat (n div 10) @ [char_of (48 + n mod 10)])"

declare dec_nat.simps [simp del]

definition dec_int :: "int \<Rightarrow> string" where
  "dec_int i = (if i < 0 then CHR ''-'' # dec_nat (nat (- i)) else dec_nat (nat i))"

text \<open>
  \<^verbatim>\<open>unicode(v)\<close>. A string is itself; other scalars print as CPython prints them.
  Lists and dictionaries print their \<^verbatim>\<open>repr\<close>; the model writes string elements in
  plain single quotes and dictionary entries in list order (CPython escapes and may use
  a \<^verbatim>\<open>u\<close> prefix, and prints entries in hash order). The only use of this text in the
  program is as an IPv4 network string, and \<open>IPv4Net\<close> shows that any text starting
  with a bracket or brace is rejected there, so the approximation is not observable.
\<close>

fun py_repr :: "pyval \<Rightarrow> string" where
  "py_repr PNone = ''None''"
| "py_repr (PBool b) = (if b then ''True'' else ''False'')"
| "py_repr (PInt i) = dec_int i"
| "py_repr (PStr s) = CHR 0x27 # s @ [CHR 0x27]"
| "py_repr (PList xs) = CHR ''['' # join_with '', '' (map py_repr xs) @ '']''"
| "py_repr (PDict kvs) =
     CHR ''{'' # join_with '', '' (map (\<lambda>kv. py_repr (fst kv) @ '': '' @ py_repr (snd kv)) kvs)
       @ ''}''"

definition py_str :: "pyval \<Rightarrow> string" where
  "py_str v = (case v of PStr s \<Rightarrow> s | _ \<Rightarrow> py_repr v)"

text \<open>Whether \<^verbatim>\<open>str()\<close> of a unicode string succeeds: Python 2 encodes it as ASCII.\<close>

definition is_ascii :: "string \<Rightarrow> bool" where
  "is_ascii s \<longleftrightarrow> list_all (\<lambda>c. of_char c < (128::nat)) s"

text \<open>
  \<^verbatim>\<open>unicode.splitlines()\<close>: the line boundaries are LF, CR, CR LF, VT, FF, FS, GS, RS
  and NEL (and U+2028, U+2029, which lie outside \<open>char\<close>); the boundaries are dropped,
  and a final boundary does not start an empty line.
\<close>

definition is_linebreak :: "char \<Rightarrow> bool" where
  "is_linebreak c \<longleftrightarrow> of_char c \<in> {10, 11, 12, 13, 28, 29, 30, 133 :: nat}"

fun splitlines_from :: "string \<Rightarrow> string \<Rightarrow> string list" where
  "splitlines_from cur [] = (if cur = [] then [] else [rev cur])"
| "splitlines_from cur [c] = (if is_linebreak c then [rev cur] else [rev (c # cur)])"
| "splitlines_from cur (c # d # cs) =
     (if c = CHR 0x0D \<and> d = CHR 0x0A then rev cur # splitlines_from [] cs
      else if is_linebreak c then rev cur # splitlines_from [] (d # cs)
      else splitlines_from (c # cur) (d # cs))"

definition py_splitlines :: "string \<Rightarrow> string list" where
  "py_splitlines s = splitlines_from [] s"

text \<open>\<^verbatim>\<open>os.path.join(a, b)\<close> of Python 2's \<^verbatim>\<open>posixpath\<close>: an absolute \<open>b\<close>
  replaces \<open>a\<close>; otherwise a slash is inserted unless \<open>a\<close> is empty or ends in one.\<close>

definition startswith :: "string \<Rightarrow> string \<Rightarrow> bool" where
  "startswith s p \<longleftrightarrow> take (length p) s = p"

definition endswith :: "string \<Rightarrow> string \<Rightarrow> bool" where
  "endswith s p \<longleftrightarrow> length p \<le> length s \<and> drop (length s - length p) s = p"

definition posix_join :: "string \<Rightarrow> string \<Rightarrow> string" where
  "posix_join a b =
     (if startswith b ''/'' then b
      else if a = [] \<or> endswith a ''/'' then a @ b
      else a @ ''/'' @ b)"

section \<open>Lemmas: line splitting\<close>

lemma is_linebreak_LF_CR [simp]: "is_linebreak (CHR 0x0A)" "is_linebreak (CHR 0x0D)"
  by (simp_all add: is_linebreak_def)

lemma splitlines_from_chars:
  "l \<in> set (splitlines_from cur s) \<Longrightarrow> set l \<subseteq> set cur \<union> set s"
  by (induction cur s rule: splitlines_from.induct) (auto split: if_splits)

text \<open>A final LF (or other boundary but CR) after a line does not add a line.\<close>

lemma not_linebreak_not_CR: "\<not> is_linebreak c \<Longrightarrow> c \<noteq> CHR 0x0D"
  by (auto simp: is_linebreak_def)

lemma splitlines_from_snoc_break:
  assumes "is_linebreak z" and "z \<noteq> CHR 0x0D"
  shows "(s = [] \<and> cur \<noteq> []) \<or> (s \<noteq> [] \<and> \<not> is_linebreak (last s)) \<Longrightarrow>
         splitlines_from cur (s @ [z]) = splitlines_from cur s"
proof (induction cur s rule: splitlines_from.induct)
  case (1 cur)
  with assms show ?case by simp
next
  case (2 cur c)
  with assms show ?case by (auto dest: not_linebreak_not_CR)
next
  case (3 cur c d cs)
  show ?case
  proof (cases "c = CHR 0x0D \<and> d = CHR 0x0A")
    case True
    with "3.prems" have "cs \<noteq> []" by auto
    with True "3.prems" "3.IH"(1) show ?thesis by simp
  next
    case nCRLF: False
  then have split: "splitlines_from cur' (c # d # xs) =
      (if is_linebreak c then rev cur' # splitlines_from [] (d # xs)
       else splitlines_from (c # cur') (d # xs))" for cur' xs
    using nCRLF by (subst splitlines_from.simps(3)) (rule if_not_P)
  from "3.prems" have tl: "d # cs \<noteq> [] \<and> \<not> is_linebreak (last (d # cs))" by simp
  have lhs: "splitlines_from cur ((c # d # cs) @ [z]) =
      (if is_linebreak c then rev cur # splitlines_from [] ((d # cs) @ [z])
       else splitlines_from (c # cur) ((d # cs) @ [z]))"
    by (simp only: append_Cons split)
  show ?thesis
    unfolding lhs split using "3.IH"(2,3) [OF nCRLF] tl by simp
  qed
qed

section \<open>Lemmas: ASCII text\<close>

lemma is_ascii_Nil [simp]: "is_ascii []"
  by (simp add: is_ascii_def)

lemma is_ascii_Cons [simp]: "is_ascii (c # s) \<longleftrightarrow> of_char c < (128::nat) \<and> is_ascii s"
  by (simp add: is_ascii_def)

lemma is_ascii_append [simp]: "is_ascii (a @ b) \<longleftrightarrow> is_ascii a \<and> is_ascii b"
  by (simp add: is_ascii_def)

lemma is_ascii_lines:
  assumes "is_ascii s" and "l \<in> set (py_splitlines s)"
  shows "is_ascii l"
proof -
  from assms(2) have "set l \<subseteq> set s"
    using splitlines_from_chars [of l "[]" s] by (simp add: py_splitlines_def)
  with assms(1) show ?thesis
    by (auto simp: is_ascii_def list_all_iff)
qed

section \<open>Dictionary lemmas\<close>

text \<open>Python equality is equality of normal forms, so it is an equivalence; a
  well-formed dictionary has one entry per class, and a lookup depends only on the set of
  entries.\<close>

lemma py_eq_norm: "py_eq a b \<longleftrightarrow> py_norm a = py_norm b"
  by (cases a; cases b) (auto simp: py_eq_def py_norm_def py_num_def)

lemma keys_distinct_norm: "keys_distinct ks \<longleftrightarrow> distinct (map py_norm ks)"
  by (induction ks) (auto simp: list_all_iff py_eq_norm)

lemma dict_get_Some_iff:
  "keys_distinct (map fst kvs) \<Longrightarrow>
   dict_get kvs k = Some v \<longleftrightarrow> (\<exists>k'. (k', v) \<in> set kvs \<and> py_eq k k')"
  by (induction kvs) (auto simp: list_all_iff py_eq_norm split: if_splits)

lemma dict_get_None_iff: "dict_get kvs k = None \<longleftrightarrow> (\<forall>k' \<in> fst ` set kvs. \<not> py_eq k k')"
  by (induction kvs) (auto split: if_splits)

lemma dict_get_perm:
  assumes "keys_distinct (map fst kvs)" "mset kvs = mset kvs'"
  shows "dict_get kvs k = dict_get kvs' k"
proof -
  have set: "set kvs = set kvs'" using assms(2) by (metis mset_eq_setD)
  have "keys_distinct (map fst kvs')"
    using assms by (simp add: keys_distinct_norm) (metis mset_eq_imp_distinct_iff mset_map)
  then show ?thesis
  proof (cases "dict_get kvs k")
    case None
    then show ?thesis using set by (metis dict_get_None_iff)
  next
    case (Some v)
    then show ?thesis
      using set assms(1) \<open>keys_distinct (map fst kvs')\<close> by (metis dict_get_Some_iff)
  qed
qed

lemma dict_get_dict_set:
  "dict_get (dict_set m k v) i = (if py_eq i k then Some v else dict_get m i)"
  by (induction m k v rule: dict_set.induct) (auto simp: py_eq_norm)

lemma py_order_key_norm:
  "py_hashable a \<Longrightarrow> py_hashable b \<Longrightarrow> py_order_key a = py_order_key b \<Longrightarrow> py_norm a = py_norm b"
  by (cases a; cases b) (auto simp: py_order_key_def py_norm_def py_num_def py_hashable_def)

lemma inj_on_py_order_key:
  "list_all py_hashable ks \<Longrightarrow> keys_distinct ks \<Longrightarrow> inj_on py_order_key (set ks)"
  unfolding keys_distinct_norm distinct_map inj_on_def list_all_iff
  by (metis py_order_key_norm)

lemma dict_set_keys:
  "map py_norm (map fst (dict_set m k v)) =
     (if py_norm k \<in> set (map py_norm (map fst m)) then map py_norm (map fst m)
      else map py_norm (map fst m) @ [py_norm k])"
  by (induction m k v rule: dict_set.induct) (auto simp: py_eq_norm)

lemma dict_set_wf: "dict_wf m \<Longrightarrow> py_hashable k \<Longrightarrow> dict_wf (dict_set m k v)"
proof -
  assume wf: "dict_wf m" and k: "py_hashable k"
  have "set (map fst (dict_set m k v)) \<subseteq> insert k (set (map fst m))"
    by (induction m k v rule: dict_set.induct) auto
  then have "list_all py_hashable (map fst (dict_set m k v))"
    using wf k unfolding dict_wf_def list_all_iff by blast
  moreover have "distinct (map py_norm (map fst (dict_set m k v)))"
    using wf by (simp only: dict_set_keys dict_wf_def keys_distinct_norm) auto
  ultimately show ?thesis
    by (simp add: dict_wf_def keys_distinct_norm)
qed

lemma py_sorted_perm:
  assumes "list_all py_hashable xs" and "keys_distinct xs" and "mset xs = mset ys"
  shows "py_sorted xs = py_sorted ys"
proof -
  have "inj_on py_order_key (set ys)"
    using inj_on_py_order_key [OF assms(1,2)] assms(3) by (metis mset_eq_setD)
  moreover have "mset ys = mset (py_sorted xs)"
    using assms(3) by (simp add: py_sorted_def)
  ultimately have "sort_key py_order_key ys = py_sorted xs"
    by (intro sort_key_inj_key_eq) (simp_all add: py_sorted_def)
  then show ?thesis by (simp add: py_sorted_def)
qed

end
