(* ===== verification/Output.thy ===== *)
theory Output
  imports PyRuntime
begin

text \<open>
  The output side of \<^verbatim>\<open>src/iftool.py\<close>: \<^verbatim>\<open>say\<close> and \<^verbatim>\<open>verbose\<close> (lines 44-63),
  the three process-wide flags \<^verbatim>\<open>VERBOSE\<close>, \<^verbatim>\<open>YES\<close>, \<^verbatim>\<open>OVERWRITE\<close> (lines 39-41,
  set once by \<^verbatim>\<open>main\<close>), and the block every renderer ends with (lines 115-123, repeated
  at 152-160, 189-197 and 243-251) that either writes the rendered file or prints a dry-run
  preview of it. Rendered text is a Python 2 \<^verbatim>\<open>unicode\<close> value, so \<^verbatim>\<open>str()\<close> in
  \<^verbatim>\<open>say\<close> and \<^verbatim>\<open>file.write\<close> encode it as ASCII and raise on any other character.
\<close>

record flags =
  VERBOSE :: bool
  YES :: bool
  OVERWRITE :: bool

text \<open>\<^verbatim>\<open>os.linesep\<close> on POSIX.\<close>

definition linesep :: string where
  "linesep = [CHR 0x0A]"

text \<open>\<^verbatim>\<open>say(text)\<close> with the default arguments: \<^verbatim>\<open>str(text)\<close> and a line separator
  to standard output. \<open>say\<close> is for byte strings, \<open>say_u\<close> for unicode text.\<close>

definition say :: "string \<Rightarrow> unit prog" where
  "say text = emit (Stdout (text @ linesep))"

definition say_u :: "string \<Rightarrow> unit prog" where
  "say_u text = (if is_ascii text then say text else throw UnicodeEncodeError)"

definition verbose :: "flags \<Rightarrow> string \<Rightarrow> unit prog" where
  "verbose fl text = (if VERBOSE fl then say_u text else ret ())"

text \<open>\<^verbatim>\<open>os.path.join(arguments['<destination>'], name)\<close>: the destination is \<^verbatim>\<open>None\<close>
  unless \<^verbatim>\<open>configure\<close> filled it in, and joining onto \<^verbatim>\<open>None\<close> fails unless the name
  is absolute.\<close>

definition join_dest :: "string option \<Rightarrow> string \<Rightarrow> exc + string" where
  "join_dest a b =
     (case a of
        Some d \<Rightarrow> Inr (posix_join d b)
      | None \<Rightarrow> if startswith b ''/'' then Inr b else Inl AttributeError)"

text \<open>\<^verbatim>\<open>with open(filename, 'wt') as file: file.write(content)\<close>. Opening fails with
  \<^verbatim>\<open>IOError\<close> where the environment does not let the file be created; once opened the
  file is empty, and writing unicode that is not ASCII raises, leaving it empty.\<close>

definition write_file :: "(string \<Rightarrow> bool) \<Rightarrow> string \<Rightarrow> string \<Rightarrow> unit prog" where
  "write_file writable filename content =
     (if \<not> writable filename then throw IOError
      else if is_ascii content then emit (WriteFile filename content)
      else ([WriteFile filename []], Inl UnicodeEncodeError))"

definition dry_run :: "string \<Rightarrow> string \<Rightarrow> unit prog" where
  \<open>dry_run filename content =
     pbind (say_u (''<DRY-RUN> not writing '' @ filename)) (\<lambda>_.
     pbind (pfor (py_splitlines content) (\<lambda>line. say_u (''> '' @ line))) (\<lambda>_.
     say ''Use "--yes" option to write file.''))\<close>

text \<open>The block that ends each renderer. The message passed to \<^verbatim>\<open>verbose\<close> joins the
  destination onto a name that already contains it; Python evaluates the argument
  whether or not \<^verbatim>\<open>VERBOSE\<close> is set.\<close>

definition write_out ::
  "flags \<Rightarrow> (string \<Rightarrow> bool) \<Rightarrow> string option \<Rightarrow> string \<Rightarrow> string \<Rightarrow> unit prog" where
  "write_out fl writable dest filename content =
     (if YES fl then
        pbind (lift (join_dest dest filename)) (\<lambda>shown.
        pbind (verbose fl (''Writing '' @ shown)) (\<lambda>_.
        write_file writable filename content))
      else dry_run filename content)"

text \<open>What a dry run prints for a file: the banner, each line of the content after
  \<^verbatim>\<open>> \<close>, and the reminder, each ended by the line separator.\<close>

definition preview :: "string \<Rightarrow> string \<Rightarrow> string list" where
  \<open>preview filename content =
     (''<DRY-RUN> not writing '' @ filename @ linesep)
     # map (\<lambda>l. ''> '' @ l @ linesep) (py_splitlines content)
     @ [''Use "--yes" option to write file.'' @ linesep]\<close>

section \<open>Lemmas\<close>

lemma say_eq: "say t = ([Stdout (t @ linesep)], Inr ())"
  by (simp add: say_def emit_def)

lemma say_u_ascii: "is_ascii t \<Longrightarrow> say_u t = ([Stdout (t @ linesep)], Inr ())"
  by (simp add: say_u_def say_eq)

lemma pfor_say_u_lines:
  "list_all is_ascii ls \<Longrightarrow>
   pfor ls (\<lambda>l. say_u (''> '' @ l)) = (map (\<lambda>l. Stdout (''> '' @ l @ linesep)) ls, Inr ())"
  by (induction ls) (simp_all add: say_u_ascii pbind_def ret_def)

lemma dry_run_writes_nothing: "written (fst (dry_run filename content)) = []"
  unfolding dry_run_def
  by (auto intro!: written_pbind_Nil written_pfor_Nil simp: say_u_def say_def emit_def throw_def)

lemma write_out_dry: "\<not> YES fl \<Longrightarrow> write_out fl writable dest filename content = dry_run filename content"
  by (simp add: write_out_def)

lemma write_out_yes:
  "YES fl \<Longrightarrow> \<not> VERBOSE fl \<Longrightarrow> dest \<noteq> None \<Longrightarrow>
   write_out fl writable dest filename content = write_file writable filename content"
  by (auto simp: write_out_def join_dest_def verbose_def)

lemma write_file_ok:
  "writable filename \<Longrightarrow> is_ascii content \<Longrightarrow>
   write_file writable filename content = ([WriteFile filename content], Inr ())"
  by (simp add: write_file_def emit_def)

lemma write_out_written:
  "YES fl \<Longrightarrow> \<not> VERBOSE fl \<Longrightarrow> dest \<noteq> None \<Longrightarrow> writable filename \<Longrightarrow> is_ascii content \<Longrightarrow>
   write_out fl writable dest filename content = ([WriteFile filename content], Inr ())"
  by (simp add: write_out_yes write_file_ok)

lemma dry_run_preview:
  assumes "is_ascii filename" and "is_ascii content"
  shows "dry_run filename content = (map Stdout (preview filename content), Inr ())"
proof -
  have "list_all is_ascii (py_splitlines content)"
    using is_ascii_lines [OF assms(2)] by (simp add: list_all_iff)
  then have lines: "pfor (py_splitlines content) (\<lambda>l. say_u (''> '' @ l)) =
      (map (\<lambda>l. Stdout (''> '' @ l @ linesep)) (py_splitlines content), Inr ())"
    by (rule pfor_say_u_lines)
  show ?thesis
    unfolding dry_run_def lines
    using assms by (simp add: preview_def say_u_ascii say_eq pbind_def)
qed

text \<open>C12. With ASCII name and content, a dry run prints exactly the preview of the file:
  the banner naming it, each line of the content after \<^verbatim>\<open>> \<close>, and the reminder.\<close>

theorem dry_run_shows_preview:
  assumes "is_ascii filename" and "is_ascii content"
  shows "dry_run filename content = (map Stdout (preview filename content), Inr ())"
  using assms by (rule dry_run_preview)

text \<open>C11. Without \<^verbatim>\<open>--yes\<close> the output block writes no file, whatever it renders.\<close>

theorem write_out_dry_run_writes_nothing:
  "\<not> YES fl \<Longrightarrow> written (fst (write_out fl writable dest filename content)) = []"
  by (simp add: write_out_def dry_run_writes_nothing)

text \<open>C10. With \<^verbatim>\<open>--yes\<close> (and no \<^verbatim>\<open>--verbose\<close>), the output block writes exactly one
  file, at the rendered name, with the rendered content, and prints nothing.\<close>

theorem write_out_confirmed:
  assumes "YES fl" and "\<not> VERBOSE fl" and "dest \<noteq> None" and "writable filename"
    and "is_ascii content"
  shows "write_out fl writable dest filename content = ([WriteFile filename content], Inr ())"
  using assms by (auto simp: write_out_def join_dest_def verbose_def write_file_def emit_def)

text \<open>C14. With \<^verbatim>\<open>--yes\<close>, content that is not ASCII makes \<^verbatim>\<open>file.write\<close> raise
  \<^verbatim>\<open>UnicodeEncodeError\<close> after \<^verbatim>\<open>open\<close> has already truncated the file: the run
  stops and leaves an empty file behind.\<close>

theorem write_out_non_ascii_truncates:
  assumes "YES fl" and "\<not> VERBOSE fl" and "dest \<noteq> None" and "writable filename"
    and "\<not> is_ascii content"
  shows "write_out fl writable dest filename content =
           ([WriteFile filename []], Inl UnicodeEncodeError)"
  using assms
  by (auto simp: write_out_def join_dest_def verbose_def write_file_def pbind_def lift_def)

text \<open>C13. The dry-run preview does not show a final newline: content with and without one
  prints the same preview, although \<^verbatim>\<open>--yes\<close> writes different files.\<close>

theorem dry_run_drops_final_newline:
  assumes "content \<noteq> []" and "\<not> is_linebreak (last content)"
  shows "dry_run filename (content @ [CHR 0x0A]) = dry_run filename content"
  using assms splitlines_from_snoc_break [of "CHR 0x0A" content "[]"]
  by (simp add: dry_run_def py_splitlines_def)

text \<open>C15. With \<^verbatim>\<open>--yes\<close> and \<^verbatim>\<open>--verbose\<close>, the message names the destination
  joined onto the file name, and the file name already starts with the destination: for
  a relative destination the message shows the destination twice, and not the path
  written.\<close>

theorem write_out_verbose_message:
  assumes "YES fl" and "VERBOSE fl" and "writable filename" and "is_ascii (posix_join d filename)"
    and "is_ascii content"
  shows "write_out fl writable (Some d) filename content =
           ([Stdout (''Writing '' @ posix_join d filename @ linesep), WriteFile filename content], Inr ())"
proof -
  have "is_ascii (''Writing '' @ posix_join d filename)"
    using assms(4) by (simp add: is_ascii_def)
  then have say: "say_u (''Writing '' @ posix_join d filename) =
      ([Stdout (''Writing '' @ posix_join d filename @ linesep)], Inr ())"
    by (simp only: say_u_ascii append_assoc)
  show ?thesis
    unfolding write_out_def join_dest_def verbose_def
    using assms by (simp only: if_True option.case pbind_lift say write_file_ok) (simp add: pbind_def)
qed

text \<open>C16. \<^verbatim>\<open>--verbose\<close> only adds the message: when the path in the message is ASCII,
  a confirmed block run with \<^verbatim>\<open>VERBOSE\<close> prints \<^verbatim>\<open>Writing <path>\<close> and then does
  exactly what the block does without it, however that ends; a dry run is not affected.\<close>

theorem write_out_verbose_only_prints:
  assumes "is_ascii (posix_join d filename)"
  shows "write_out (fl\<lparr>VERBOSE := True\<rparr>) writable (Some d) filename content =
           (let r = write_out (fl\<lparr>VERBOSE := False\<rparr>) writable (Some d) filename content in
            if YES fl then (Stdout (''Writing '' @ posix_join d filename @ linesep) # fst r, snd r) else r)"
  using assms
  by (simp add: write_out_def verbose_def join_dest_def say_u_ascii say_eq Let_def) (simp add: pbind_def split: prod.split)

text \<open>C17. \<^verbatim>\<open>--verbose\<close> turns a write that succeeds into a crash when the path in the
  message is not ASCII: \<^verbatim>\<open>str()\<close> in \<^verbatim>\<open>say\<close> raises \<^verbatim>\<open>UnicodeEncodeError\<close> before
  the file is opened, while the same block without \<^verbatim>\<open>--verbose\<close> writes the file.\<close>

theorem write_out_verbose_non_ascii:
  assumes "YES fl" and "\<not> is_ascii (posix_join d filename)" and "writable filename"
    and "is_ascii content"
  shows "write_out (fl\<lparr>VERBOSE := True\<rparr>) writable (Some d) filename content = ([], Inl UnicodeEncodeError)
         \<and> write_out (fl\<lparr>VERBOSE := False\<rparr>) writable (Some d) filename content =
             ([WriteFile filename content], Inr ())"
  using assms
  by (simp add: write_out_def verbose_def join_dest_def say_u_def write_file_ok) (simp add: throw_def)

lemma write_out_overwrite: "write_out (fl\<lparr>OVERWRITE := b\<rparr>) = write_out fl"
  by (simp add: write_out_def verbose_def fun_eq_iff)

section \<open>Witnesses\<close>

theorem dry_run_shows_preview_witness:
  "is_ascii ''ifcfg-eth0'' \<and> is_ascii ''DEVICE=eth0''
   \<and> dry_run ''ifcfg-eth0'' ''DEVICE=eth0''
       = (map Stdout (preview ''ifcfg-eth0'' ''DEVICE=eth0''), Inr ())"
  using dry_run_shows_preview [of "''ifcfg-eth0''" "''DEVICE=eth0''"] by simp

theorem write_out_dry_run_writes_nothing_witness:
  "\<not> YES (\<lparr>VERBOSE = False, YES = False, OVERWRITE = False\<rparr>) \<and> written (fst (write_out (\<lparr>VERBOSE = False, YES = False, OVERWRITE = False\<rparr>) (\<lambda>_. True) (Some ''/etc'') ''f'' ''x'')) = []"
  using write_out_dry_run_writes_nothing [of "\<lparr>VERBOSE = False, YES = False, OVERWRITE = False\<rparr>" "\<lambda>_. True" "Some ''/etc''" "''f''" "''x''"]
  by simp

theorem write_out_confirmed_witness:
  "YES (\<lparr>VERBOSE = False, YES = True, OVERWRITE = False\<rparr>) \<and> \<not> VERBOSE (\<lparr>VERBOSE = False, YES = True, OVERWRITE = False\<rparr>) \<and> Some ''/etc'' \<noteq> None \<and> (\<lambda>_. True) ''/etc/f''
   \<and> is_ascii ''DEVICE=eth0''
   \<and> write_out (\<lparr>VERBOSE = False, YES = True, OVERWRITE = False\<rparr>) (\<lambda>_. True) (Some ''/etc'') ''/etc/f'' ''DEVICE=eth0''
       = ([WriteFile ''/etc/f'' ''DEVICE=eth0''], Inr ())"
  using write_out_confirmed [of "\<lparr>VERBOSE = False, YES = True, OVERWRITE = False\<rparr>" "Some ''/etc''" "\<lambda>_. True" "''/etc/f''" "''DEVICE=eth0''"]
  by simp

theorem write_out_non_ascii_truncates_witness:
  "YES (\<lparr>VERBOSE = False, YES = True, OVERWRITE = False\<rparr>) \<and> \<not> VERBOSE (\<lparr>VERBOSE = False, YES = True, OVERWRITE = False\<rparr>) \<and> Some ''/etc'' \<noteq> None \<and> (\<lambda>_. True) ''/etc/f''
   \<and> \<not> is_ascii [CHR 0xE9]
   \<and> write_out (\<lparr>VERBOSE = False, YES = True, OVERWRITE = False\<rparr>) (\<lambda>_. True) (Some ''/etc'') ''/etc/f'' [CHR 0xE9]
       = ([WriteFile ''/etc/f'' []], Inl UnicodeEncodeError)"
  using write_out_non_ascii_truncates [of "\<lparr>VERBOSE = False, YES = True, OVERWRITE = False\<rparr>" "Some ''/etc''" "\<lambda>_. True" "''/etc/f''" "[CHR 0xE9]"]
  by simp

theorem dry_run_drops_final_newline_witness:
  "''DEVICE=eth0'' \<noteq> [] \<and> \<not> is_linebreak (last ''DEVICE=eth0'')
   \<and> dry_run ''f'' (''DEVICE=eth0'' @ [CHR 0x0A]) = dry_run ''f'' ''DEVICE=eth0''"
  using dry_run_drops_final_newline [of "''DEVICE=eth0''" "''f''"] by (simp add: is_linebreak_def)

theorem write_out_verbose_message_witness:
  "write_out \<lparr>VERBOSE = True, YES = True, OVERWRITE = False\<rparr> (\<lambda>_. True) (Some ''out'')
     ''out/ifcfg-eth0'' ''DEVICE=eth0''
   = ([Stdout (''Writing out/out/ifcfg-eth0'' @ linesep), WriteFile ''out/ifcfg-eth0'' ''DEVICE=eth0''], Inr ())"
proof -
  have "posix_join ''out'' ''out/ifcfg-eth0'' = ''out/out/ifcfg-eth0''"
    by (simp add: posix_join_def startswith_def endswith_def)
  moreover have "write_out \<lparr>VERBOSE = True, YES = True, OVERWRITE = False\<rparr> (\<lambda>_. True) (Some ''out'')
     ''out/ifcfg-eth0'' ''DEVICE=eth0''
   = ([Stdout (''Writing '' @ posix_join ''out'' ''out/ifcfg-eth0'' @ linesep),
       WriteFile ''out/ifcfg-eth0'' ''DEVICE=eth0''], Inr ())"
    by (rule write_out_verbose_message) (simp_all add: posix_join_def startswith_def endswith_def is_ascii_def)
  ultimately show ?thesis by simp
qed

theorem write_out_verbose_only_prints_witness:
  "write_out \<lparr>VERBOSE = True, YES = True, OVERWRITE = False\<rparr> (\<lambda>_. False) (Some ''/etc/net'')
     ''/etc/net/ifcfg-eth0'' ''DEVICE=eth0''
   = ([Stdout (''Writing /etc/net/ifcfg-eth0'' @ linesep)], Inl IOError)"
proof -
  have "is_ascii (posix_join ''/etc/net'' ''/etc/net/ifcfg-eth0'')"
    by (simp add: posix_join_def startswith_def is_ascii_def)
  from write_out_verbose_only_prints [OF this,
      where fl = "\<lparr>VERBOSE = False, YES = True, OVERWRITE = False\<rparr>" and writable = "\<lambda>_. False"
        and content = "''DEVICE=eth0''"]
  show ?thesis
    by (simp add: write_out_def verbose_def join_dest_def write_file_def throw_def posix_join_def
        startswith_def)
qed

theorem write_out_verbose_non_ascii_witness:
  "write_out \<lparr>VERBOSE = True, YES = True, OVERWRITE = False\<rparr> (\<lambda>_. True) (Some ''/etc/net'')
     (''/etc/net/caf'' @ [CHR 0xE9]) ''DEVICE=eth0'' = ([], Inl UnicodeEncodeError)
   \<and> write_out \<lparr>VERBOSE = False, YES = True, OVERWRITE = False\<rparr> (\<lambda>_. True) (Some ''/etc/net'')
     (''/etc/net/caf'' @ [CHR 0xE9]) ''DEVICE=eth0''
     = ([WriteFile (''/etc/net/caf'' @ [CHR 0xE9]) ''DEVICE=eth0''], Inr ())"
  using write_out_verbose_non_ascii [where fl = "\<lparr>VERBOSE = False, YES = True, OVERWRITE = False\<rparr>"
      and d = "''/etc/net''" and filename = "''/etc/net/caf'' @ [CHR 0xE9]" and writable = "\<lambda>_. True"
      and content = "''DEVICE=eth0''"]
  by (simp add: posix_join_def startswith_def is_ascii_def)

end
