(* ===== verification/HostResolver.thy ===== *)
theory HostResolver
  imports Output
begin

text \<open>
  The host lookup every renderer starts with (\<^verbatim>\<open>src/iftool.py\<close> lines 99-106, repeated
  verbatim at 127-134, 164-171 and 201-208): the keys of \<^verbatim>\<open>configuration['hosts']\<close>
  are scanned in iteration order and the first key equal to \<^verbatim>\<open>--host\<close>, or with the same
  part before the first dot, is taken; with no such key the program prints an error and
  calls \<^verbatim>\<open>sys.exit(1)\<close>. The lookup returns the matched key (the interface renderer
  uses it again at line 230) and the host record \<^verbatim>\<open>configuration['hosts'][host]\<close>.
\<close>

text \<open>\<^verbatim>\<open>arguments['--host']\<close>: a string, or \<^verbatim>\<open>None\<close> when neither the option nor
  \<^verbatim>\<open>configure\<close> gave one.\<close>

definition host_arg_val :: "string option \<Rightarrow> pyval" where
  "host_arg_val h = (case h of None \<Rightarrow> PNone | Some s \<Rightarrow> PStr s)"

text \<open>The condition at line 101, evaluated left to right with Python's short circuit.\<close>

definition host_matches :: "pyval \<Rightarrow> pyval \<Rightarrow> exc + bool" where
  "host_matches this_host host =
     (if py_eq this_host host then Inr True
      else sbind (py_split0 this_host) (\<lambda>a. sbind (py_split0 host) (\<lambda>b. Inr (a = b))))"

text \<open>The \<^verbatim>\<open>for ... break\<close> loop: the first matching key, or none.\<close>

fun find_host :: "pyval \<Rightarrow> pyval list \<Rightarrow> exc + pyval option" where
  "find_host this_host [] = Inr None"
| "find_host this_host (host # hosts) =
     sbind (host_matches this_host host)
       (\<lambda>m. if m then Inr (Some host) else find_host this_host hosts)"

definition not_found_msg :: "pyval \<Rightarrow> string" where
  "not_found_msg this_host = ''ERROR: '' @ py_str this_host @ '' not found in template hosts section''"

text \<open>Lines 99-106: the loop, its \<^verbatim>\<open>else\<close> branch, and \<^verbatim>\<open>detail = configuration['hosts'][host]\<close>.\<close>

definition resolve_host :: "pyval \<Rightarrow> string option \<Rightarrow> (pyval \<times> pyval) prog" where
  "resolve_host configuration host_arg =
     (let this_host = host_arg_val host_arg in
      pbind (lift (py_getitem configuration (PStr ''hosts''))) (\<lambda>hosts.
      pbind (lift (py_iter hosts)) (\<lambda>keys.
      pbind (lift (find_host this_host keys)) (\<lambda>found.
        case found of
          Some host \<Rightarrow>
            pbind (lift (sbind (py_getitem configuration (PStr ''hosts'')) (\<lambda>hs. py_getitem hs host)))
              (\<lambda>detail. ret (host, detail))
        | None \<Rightarrow> pbind (say (not_found_msg this_host)) (\<lambda>_. throw (SystemExit 1))))))"

text \<open>The outcome of the lookup as a value: the host key and its entry, or
  \<^verbatim>\<open>SystemExit 1\<close> where no key matches.\<close>

definition host_lookup :: "pyval \<Rightarrow> string option \<Rightarrow> exc + pyval \<times> pyval" where
  "host_lookup configuration host_arg =
     sbind (py_getitem configuration (PStr ''hosts'')) (\<lambda>hosts.
     sbind (py_iter hosts) (\<lambda>keys.
     sbind (find_host (host_arg_val host_arg) keys) (\<lambda>found.
       case found of
         Some host \<Rightarrow> sbind (py_getitem hosts host) (\<lambda>detail. Inr (host, detail))
       | None \<Rightarrow> Inl (SystemExit 1))))"

section \<open>Lemmas\<close>

lemma py_eq_PStr_iff: "py_eq (PStr h) k \<longleftrightarrow> k = PStr h"
  by (cases k) (auto simp: py_eq_def py_num_def)

lemma host_matches_PStr:
  "host_matches (PStr h) k = (case k of PStr s \<Rightarrow> Inr (split0 h = split0 s) | _ \<Rightarrow> Inl AttributeError)"
  by (cases k) (auto simp: host_matches_def py_eq_PStr_iff py_split0_def)

text \<open>C18. For string keys the exact comparison of line 101 is redundant: the loop returns
  the first key, in iteration order, whose part before the first dot equals the target's.\<close>

theorem find_host_first_short_match:
  "find_host (PStr h) (map PStr names) = Inr (map_option PStr (find (\<lambda>n. split0 h = split0 n) names))"
  by (induction names) (simp_all add: host_matches_def py_eq_PStr_iff py_split0_def)

text \<open>C19. The result depends on the target only through its short name: two targets with the
  same part before the first dot resolve identically, errors included.\<close>

theorem find_host_short_name_invariant:
  assumes "split0 h = split0 h'"
  shows "find_host (PStr h) keys = find_host (PStr h') keys"
proof -
  have step: "host_matches (PStr h) k = host_matches (PStr h') k" for k
    using assms by (simp add: host_matches_PStr split: pyval.split)
  show ?thesis
  proof (induction keys)
    case Nil
    then show ?case by simp
  next
    case (Cons k keys)
    then show ?case by (simp only: find_host.simps step)
  qed
qed

text \<open>C20. Exact matches are not independent of iteration order: a key with the same short
  name that comes first shadows a key equal to the target.\<close>

theorem find_host_exact_key_shadowed:
  assumes "split0 n = split0 h" and "n \<noteq> h"
  shows "find_host (PStr h) [PStr n, PStr h] = Inr (Some (PStr n))"
  using assms by (simp add: host_matches_PStr)

lemma resolve_host_not_found:
  assumes "py_getitem configuration (PStr ''hosts'') = Inr hosts" and "py_iter hosts = Inr keys"
    and "find_host (host_arg_val a) keys = Inr None"
  shows "resolve_host configuration a =
           ([Stdout (not_found_msg (host_arg_val a) @ linesep)], Inl (SystemExit 1))"
  using assms by (simp add: resolve_host_def say_def throw_def)

lemma resolve_host_found:
  assumes "py_getitem configuration (PStr ''hosts'') = Inr hosts" and "py_iter hosts = Inr keys"
    and "find_host (host_arg_val a) keys = Inr (Some host)"
  shows "resolve_host configuration a = ([], sbind (py_getitem hosts host) (\<lambda>d. Inr (host, d)))"
  using assms by (cases "py_getitem hosts host") (simp_all add: resolve_host_def ret_def throw_def)

lemma resolve_host_writes_nothing: "written (fst (resolve_host configuration a)) = []"
  unfolding resolve_host_def Let_def
  by (auto intro!: written_pbind_Nil simp: lift_def say_def emit_def throw_def ret_def
      split: option.split)

text \<open>A successful lookup prints nothing and returns the entry.\<close>

lemma resolve_host_lookup:
  "host_lookup configuration a = Inr entry \<Longrightarrow> resolve_host configuration a = ([], Inr entry)"
  by (auto simp: host_lookup_def sbind_eq_Inr_iff resolve_host_found split: option.splits)

section \<open>Witnesses\<close>

theorem find_host_short_name_invariant_witness:
  "split0 ''web1.example.com'' = split0 ''web1''
   \<and> find_host (PStr ''web1.example.com'') [PStr ''db1'', PStr ''web1'']
     = find_host (PStr ''web1'') [PStr ''db1'', PStr ''web1'']"
  using find_host_short_name_invariant [of "''web1.example.com''" "''web1''" "[PStr ''db1'', PStr ''web1'']"]
  by (simp add: split0_def)

theorem find_host_exact_key_shadowed_witness:
  "split0 ''web1'' = split0 ''web1.example.com'' \<and> ''web1'' \<noteq> ''web1.example.com''
   \<and> find_host (PStr ''web1.example.com'') [PStr ''web1'', PStr ''web1.example.com'']
     = Inr (Some (PStr ''web1''))"
  using find_host_exact_key_shadowed [of "''web1''" "''web1.example.com''"]
  by (simp add: split0_def)

end
