(* ===== verification/IPv4Net.thy ===== *)
theory IPv4Net
  imports PyRuntime
begin

text \<open>
  \<^verbatim>\<open>ipaddress.IPv4Network(unicode(subnet))\<close> as \<^verbatim>\<open>configure_interfaces\<close> uses it
  (\<^verbatim>\<open>src/iftool.py\<close> lines 231-233): the subnet text is split at \<^verbatim>\<open>/\<close>, the
  address part is parsed as a dotted quad, the optional part as a prefix length, a
  dotted netmask or a dotted hostmask; with the default \<^verbatim>\<open>strict=True\<close>, an address
  with bits set outside the mask raises \<^verbatim>\<open>ValueError\<close>. The program then reads
  \<^verbatim>\<open>network_address\<close> and \<^verbatim>\<open>netmask\<close> and prints them with \<^verbatim>\<open>str\<close>. The library
  is a dependency (\<^verbatim>\<open>src/setup.py\<close>), not code of the repository; the definitions
  follow the parsing routines of its Python 2 release (\<^verbatim>\<open>_ip_int_from_string\<close>,
  \<^verbatim>\<open>_parse_octet\<close>, \<^verbatim>\<open>_prefix_from_prefix_string\<close>, \<^verbatim>\<open>_prefix_from_ip_string\<close>,
  \<^verbatim>\<open>_prefix_from_ip_int\<close>). Addresses and masks are \<open>32 word\<close>; all failures are
  \<^verbatim>\<open>ValueError\<close> (\<^verbatim>\<open>AddressValueError\<close> and \<^verbatim>\<open>NetmaskValueError\<close> are subclasses).
\<close>

unbundle bit_operations_syntax

section \<open>Text\<close>

text \<open>\<^verbatim>\<open>s.split(sep)\<close> with a one-character separator.\<close>

fun split_on :: "char \<Rightarrow> string \<Rightarrow> string list" where
  "split_on c [] = [[]]"
| "split_on c (x # xs) =
     (if x = c then [] # split_on c xs
      else case split_on c xs of l # ls \<Rightarrow> (x # l) # ls | [] \<Rightarrow> [[x]])"

definition is_digit :: "char \<Rightarrow> bool" where
  "is_digit c \<longleftrightarrow> 48 \<le> (of_char c :: nat) \<and> (of_char c :: nat) \<le> 57"

text \<open>\<^verbatim>\<open>int(s, 10)\<close> on a string of decimal digits.\<close>

definition digits_val :: "string \<Rightarrow> nat" where
  "digits_val s = foldl (\<lambda>acc c. 10 * acc + (of_char c - 48)) 0 s"

section \<open>Addresses\<close>

definition ipv4_of_octets :: "nat list \<Rightarrow> 32 word" where
  "ipv4_of_octets os = word_of_nat (foldl (\<lambda>acc x. acc * 256 + x) 0 os)"

definition octets_of_ipv4 :: "32 word \<Rightarrow> nat list" where
  "octets_of_ipv4 w =
     [unat w div 2 ^ 24 mod 256, unat w div 2 ^ 16 mod 256, unat w div 2 ^ 8 mod 256, unat w mod 256]"

text \<open>\<^verbatim>\<open>str(IPv4Address)\<close>: the dotted quad in decimal.\<close>

definition ipv4_str :: "32 word \<Rightarrow> string" where
  "ipv4_str w = join_with ''.'' (map dec_nat (octets_of_ipv4 w))"

text \<open>\<^verbatim>\<open>_parse_octet\<close>: one to three decimal digits, at most 255, and no leading zero
  on a value above 7 (ambiguous between octal and decimal).\<close>

definition parse_octet :: "string \<Rightarrow> exc + nat" where
  "parse_octet s =
     (if s = [] then Inl ValueError
      else if \<not> list_all is_digit s then Inl ValueError
      else if 3 < length s then Inl ValueError
      else if 7 < digits_val s \<and> take 1 s = ''0'' then Inl ValueError
      else if 255 < digits_val s then Inl ValueError
      else Inr (digits_val s))"

text \<open>\<^verbatim>\<open>_ip_int_from_string\<close>: exactly four octets separated by dots.\<close>

definition parse_ipv4 :: "string \<Rightarrow> exc + 32 word" where
  "parse_ipv4 s =
     (if s = [] then Inl ValueError
      else let parts = split_on CHR ''.'' s in
        if length parts \<noteq> 4 then Inl ValueError
        else sbind (smap parse_octet parts) (\<lambda>os. Inr (ipv4_of_octets os)))"

section \<open>Masks\<close>

text \<open>\<^verbatim>\<open>_ip_int_from_prefix\<close>: \<open>p\<close> leading ones.\<close>

definition netmask_of_prefix :: "nat \<Rightarrow> 32 word" where
  "netmask_of_prefix p = NOT (mask (32 - p))"

text \<open>\<^verbatim>\<open>_count_righthand_zero_bits(n, 32)\<close>.\<close>

definition trailing_zeros :: "32 word \<Rightarrow> nat" where
  "trailing_zeros w = length (takeWhile (\<lambda>n. \<not> bit w n) [0..<32])"

text \<open>\<^verbatim>\<open>_prefix_from_ip_int\<close>: the prefix length of a contiguous netmask.\<close>

definition prefix_from_ip_int :: "32 word \<Rightarrow> exc + nat" where
  "prefix_from_ip_int w =
     (let tz = trailing_zeros w; p = 32 - tz
      in if drop_bit tz w = mask p then Inr p else Inl ValueError)"

text \<open>\<^verbatim>\<open>_prefix_from_prefix_string\<close>: decimal digits only, at most 32.\<close>

definition prefix_from_string :: "string \<Rightarrow> exc + nat" where
  "prefix_from_string s =
     (if s \<noteq> [] \<and> list_all is_digit s \<and> digits_val s \<le> 32 then Inr (digits_val s)
      else Inl ValueError)"

text \<open>The mask part: a prefix length, else a dotted netmask, else a dotted hostmask.\<close>

definition mask_prefix :: "string \<Rightarrow> exc + nat" where
  "mask_prefix s =
     (case prefix_from_string s of
        Inr p \<Rightarrow> Inr p
      | Inl _ \<Rightarrow>
          (case parse_ipv4 s of
             Inl _ \<Rightarrow> Inl ValueError
           | Inr w \<Rightarrow>
               (case prefix_from_ip_int w of
                  Inr p \<Rightarrow> Inr p
                | Inl _ \<Rightarrow> prefix_from_ip_int (NOT w))))"

section \<open>Networks\<close>

record ipv4net =
  network_address :: "32 word"
  prefixlen :: nat

definition netmask :: "ipv4net \<Rightarrow> 32 word" where
  "netmask n = netmask_of_prefix (prefixlen n)"

text \<open>\<^verbatim>\<open>IPv4Network(s)\<close> with \<^verbatim>\<open>strict=True\<close>.\<close>

definition ipv4_network :: "string \<Rightarrow> exc + ipv4net" where
  "ipv4_network s =
     (case split_on CHR ''/'' s of
        [a] \<Rightarrow> sbind (parse_ipv4 a) (\<lambda>addr. Inr \<lparr>network_address = addr, prefixlen = 32\<rparr>)
      | [a, m] \<Rightarrow>
          sbind (parse_ipv4 a) (\<lambda>addr.
          sbind (mask_prefix m) (\<lambda>p.
            if addr AND netmask_of_prefix p \<noteq> addr then Inl ValueError
            else Inr \<lparr>network_address = addr AND netmask_of_prefix p, prefixlen = p\<rparr>))
      | _ \<Rightarrow> Inl ValueError)"

section \<open>Evaluation\<close>

text \<open>The definitions a concrete subnet is evaluated with.\<close>

lemmas ipv4_eval = ipv4_network_def parse_ipv4_def parse_octet_def is_digit_def digits_val_def
  ipv4_of_octets_def mask_prefix_def prefix_from_string_def netmask_of_prefix_def mask_numeral
  netmask_def ipv4_str_def octets_of_ipv4_def dec_nat.simps char_of_def bit_0

end
