(* ===== verification/Template.thy ===== *)
theory Template
  imports IPv4Net
begin

text \<open>
  Rendering with Jinja2 (\<^verbatim>\<open>jinja2.Template(source).render(**variables)\<close>, used at
  \<^verbatim>\<open>src/iftool.py\<close> lines 111, 113, 148, 150, 185, 187, 224 and 235). The templates come
  from the configuration document, so the program promises nothing about their
  language: the renderers are modelled over an arbitrary engine, a function from the
  template source and the keyword arguments to the rendered text or an exception, and
  every lemma about the renderers holds for every engine. The values passed to a
  template are the document's values, \<^verbatim>\<open>IPv4Address\<close> objects, and the lists and
  dictionaries of them the code builds.

  \<open>interpolate\<close> is one concrete engine, used to run the renderers on examples: the
  plain variable interpolation the specification asks for at minimum
  (\<^verbatim>\<open>{{ name }}\<close>, an undefined name rendering as empty text, an unclosed tag raising
  \<^verbatim>\<open>TemplateSyntaxError\<close>), with Jinja2's default removal of one trailing newline.
  Statements and comments (\<^verbatim>\<open>{% %}\<close>, \<^verbatim>\<open>{# #}\<close>) are outside this subset.
\<close>

datatype cval =
    CPy pyval
  | CAddr "32 word"
  | CList "cval list"
  | CDict "(string \<times> cval) list"

type_synonym engine = "string \<Rightarrow> (string \<times> cval) list \<Rightarrow> exc + string"

text \<open>\<^verbatim>\<open>jinja2.Template(source)\<close> compiles a string; anything else (\<^verbatim>\<open>None\<close> from an
  empty YAML entry, a number) is not a template source and raises \<^verbatim>\<open>TypeError\<close>.\<close>

definition template_src :: "pyval \<Rightarrow> exc + string" where
  "template_src v = (case v of PStr s \<Rightarrow> Inr s | _ \<Rightarrow> Inl TypeError)"

text \<open>\<^verbatim>\<open>jinja2.Template(configuration['templates'][section][key]).render(**kw)\<close>.\<close>

definition render_template ::
  "engine \<Rightarrow> pyval \<Rightarrow> string \<Rightarrow> string \<Rightarrow> (string \<times> cval) list \<Rightarrow> exc + string" where
  "render_template render configuration section key kw =
     sbind (py_path configuration [''templates'', section, key]) (\<lambda>src.
     sbind (template_src src) (\<lambda>t. render t kw))"

section \<open>A concrete engine: variable interpolation\<close>

fun cval_str :: "cval \<Rightarrow> string" where
  "cval_str (CPy v) = py_str v"
| "cval_str (CAddr w) = ipv4_str w"
| "cval_str (CList xs) = CHR ''['' # join_with '', '' (map cval_str xs) @ '']''"
| "cval_str (CDict kvs) =
     CHR ''{'' # join_with '', '' (map (\<lambda>kv. fst kv @ '': '' @ cval_str (snd kv)) kvs) @ ''}''"

definition strip_spaces :: "string \<Rightarrow> string" where
  "strip_spaces s = rev (dropWhile (\<lambda>c. c = CHR '' '') (rev (dropWhile (\<lambda>c. c = CHR '' '') s)))"

definition var_str :: "(string \<times> cval) list \<Rightarrow> string \<Rightarrow> string" where
  "var_str kw name = (case map_of kw name of Some v \<Rightarrow> cval_str v | None \<Rightarrow> [])"

definition prepend :: "string \<Rightarrow> exc + string \<Rightarrow> exc + string" where
  "prepend x r = sbind r (\<lambda>t. Inr (x @ t))"

text \<open>The scan keeps \<open>None\<close> outside a tag and \<open>Some n\<close> inside one, \<open>n\<close> being the
  reversed name read so far.\<close>

fun interp_from :: "(string \<times> cval) list \<Rightarrow> string option \<Rightarrow> string \<Rightarrow> exc + string" where
  "interp_from kw None [] = Inr []"
| "interp_from kw None [c] = Inr [c]"
| "interp_from kw None (c # d # s) =
     (if c = CHR ''{'' \<and> d = CHR ''{'' then interp_from kw (Some []) s
      else prepend [c] (interp_from kw None (d # s)))"
| "interp_from kw (Some n) [] = Inl TemplateError"
| "interp_from kw (Some n) [c] = Inl TemplateError"
| "interp_from kw (Some n) (c # d # s) =
     (if c = CHR ''}'' \<and> d = CHR ''}''
      then prepend (var_str kw (strip_spaces (rev n))) (interp_from kw None s)
      else interp_from kw (Some (c # n)) (d # s))"

definition interpolate :: engine where
  "interpolate t kw =
     interp_from kw None (if t \<noteq> [] \<and> last t = CHR 0x0A then butlast t else t)"

end
