(* ===== verification/Renderers.thy ===== *)
theory Renderers
  imports HostResolver Template
begin

text \<open>
  The four section renderers of \<^verbatim>\<open>src/iftool.py\<close>: \<^verbatim>\<open>configure_device\<close> (lines 98-123),
  \<^verbatim>\<open>configure_routes\<close> (126-160), \<^verbatim>\<open>configure_rules\<close> (163-197) and
  \<^verbatim>\<open>configure_interfaces\<close> (200-251). Each looks the host up (\<open>resolve_host\<close>),
  reads the document, renders a file name and a content template and hands them to the
  output block (\<open>write_out\<close>). Each takes the process flags, the predicate saying
  which paths can be opened for writing, the template engine, the parsed document and
  the docopt argument dictionary, and returns its effects and its outcome.
\<close>

text \<open>The docopt dictionary (usage text, lines 5-22).\<close>

record arguments =
  configure_cmd :: bool
  host_arg :: "string option"
  template_arg :: string
  destination :: "string option"
  verbose_opt :: bool
  yes_opt :: bool
  overwrite_opt :: bool
  version_opt :: bool

section \<open>Routing-table contexts\<close>

text \<open>The dictionary built for each table (lines 140-146).\<close>

record table_ctx =
  t_table :: pyval
  t_device :: pyval
  t_ifname :: pyval
  t_subnet :: pyval
  t_gateway :: pyval

definition ctx_cval :: "table_ctx \<Rightarrow> cval" where
  "ctx_cval t =
     CDict [(''table'', CPy (t_table t)), (''device'', CPy (t_device t)),
            (''ifname'', CPy (t_ifname t)), (''subnet'', CPy (t_subnet t)),
            (''gateway'', CPy (t_gateway t))]"

text \<open>One loop iteration: \<^verbatim>\<open>d = configuration['tables'][table]\<close> and the three reads of
  \<^verbatim>\<open>d\<close>, in the order the dictionary display evaluates them.\<close>

definition table_entry :: "pyval \<Rightarrow> pyval \<Rightarrow> pyval \<Rightarrow> exc + table_ctx" where
  "table_entry tables device table =
     sbind (py_getitem tables table) (\<lambda>d.
     sbind (py_getitem d (PStr ''primary ifname'')) (\<lambda>ifname.
     sbind (py_getitem d (PStr ''subnet'')) (\<lambda>subnet.
     sbind (py_getitem d (PStr ''default gateway'')) (\<lambda>gateway.
       Inr \<lparr>t_table = table, t_device = device, t_ifname = ifname,
            t_subnet = subnet, t_gateway = gateway\<rparr>))))"

text \<open>Lines 137-146 (and 174-183): the contexts of all tables, by ascending table name.\<close>

definition table_contexts :: "pyval \<Rightarrow> pyval \<Rightarrow> exc + table_ctx list" where
  "table_contexts configuration device =
     sbind (py_getitem configuration (PStr ''tables'')) (\<lambda>tables.
     sbind (py_iter tables) (\<lambda>keys.
     smap (table_entry tables device) (py_sorted keys)))"

section \<open>Device, routes, rules\<close>

definition configure_device ::
  "flags \<Rightarrow> (string \<Rightarrow> bool) \<Rightarrow> engine \<Rightarrow> pyval \<Rightarrow> arguments \<Rightarrow> unit prog" where
  "configure_device fl writable render configuration arguments =
     pbind (resolve_host configuration (host_arg arguments)) (\<lambda>(host, detail).
     pbind (lift (py_path configuration [''global'', ''vlan''])) (\<lambda>vlan.
     pbind (lift (py_getitem detail (PStr ''device''))) (\<lambda>device.
     pbind (lift (render_template render configuration ''device'' ''filename''
                    [(''device'', CPy device)])) (\<lambda>filename.
     pbind (lift (join_dest (destination arguments) filename)) (\<lambda>filename.
     pbind (lift (render_template render configuration ''device'' ''content''
                    [(''device'', CPy device), (''vlan'', CPy vlan)])) (\<lambda>content.
       write_out fl writable (destination arguments) filename content))))))"

definition configure_routes ::
  "flags \<Rightarrow> (string \<Rightarrow> bool) \<Rightarrow> engine \<Rightarrow> pyval \<Rightarrow> arguments \<Rightarrow> unit prog" where
  "configure_routes fl writable render configuration arguments =
     pbind (resolve_host configuration (host_arg arguments)) (\<lambda>(host, detail).
     pbind (lift (py_getitem detail (PStr ''device''))) (\<lambda>device.
     pbind (lift (table_contexts configuration device)) (\<lambda>tables.
     pbind (lift (render_template render configuration ''route'' ''filename''
                    [(''device'', CPy device)])) (\<lambda>filename.
     pbind (lift (join_dest (destination arguments) filename)) (\<lambda>filename.
     pbind (lift (render_template render configuration ''route'' ''content''
                    [(''tables'', CList (map ctx_cval tables))])) (\<lambda>content.
       write_out fl writable (destination arguments) filename content))))))"

definition configure_rules ::
  "flags \<Rightarrow> (string \<Rightarrow> bool) \<Rightarrow> engine \<Rightarrow> pyval \<Rightarrow> arguments \<Rightarrow> unit prog" where
  "configure_rules fl writable render configuration arguments =
     pbind (resolve_host configuration (host_arg arguments)) (\<lambda>(host, detail).
     pbind (lift (py_getitem detail (PStr ''device''))) (\<lambda>device.
     pbind (lift (table_contexts configuration device)) (\<lambda>tables.
     pbind (lift (render_template render configuration ''rule'' ''filename''
                    [(''device'', CPy device)])) (\<lambda>filename.
     pbind (lift (join_dest (destination arguments) filename)) (\<lambda>filename.
     pbind (lift (render_template render configuration ''rule'' ''content''
                    [(''tables'', CList (map ctx_cval tables))])) (\<lambda>content.
       write_out fl writable (destination arguments) filename content))))))"

section \<open>Interfaces\<close>

text \<open>Lines 212-221: \<^verbatim>\<open>ifnames[d['primary ifname']] = {...}\<close> over the tables in sorted
  order. The dictionary display is evaluated before the key; an unhashable key raises
  \<^verbatim>\<open>TypeError\<close>; a later table with the same interface name replaces the earlier one.\<close>

fun collect_ifnames ::
  "pyval \<Rightarrow> pyval \<Rightarrow> (pyval \<times> table_ctx) list \<Rightarrow> pyval list \<Rightarrow> exc + (pyval \<times> table_ctx) list"
where
  "collect_ifnames tables device m [] = Inr m"
| "collect_ifnames tables device m (table # rest) =
     sbind (table_entry tables device table) (\<lambda>t.
       if \<not> py_hashable (t_ifname t) then Inl TypeError
       else collect_ifnames tables device (dict_set m (t_ifname t) t) rest)"

definition interface_map :: "pyval \<Rightarrow> pyval \<Rightarrow> exc + (pyval \<times> table_ctx) list" where
  "interface_map configuration device =
     sbind (py_getitem configuration (PStr ''tables'')) (\<lambda>tables.
     sbind (py_iter tables) (\<lambda>keys.
     collect_ifnames tables device [] (py_sorted keys)))"

text \<open>Lines 224-241, one interface: its file name, the host's address on it, the network
  of its table's subnet, and the content.\<close>

definition interface_file ::
  "engine \<Rightarrow> pyval \<Rightarrow> string option \<Rightarrow> pyval \<Rightarrow> pyval \<Rightarrow> (pyval \<times> table_ctx) list \<Rightarrow> pyval
   \<Rightarrow> exc + string \<times> string" where
  "interface_file render configuration dest host device ifnames ifname =
     sbind (render_template render configuration ''interface'' ''filename''
              [(''device'', CPy device), (''ifname'', CPy ifname)]) (\<lambda>filename.
     sbind (join_dest dest filename) (\<lambda>filename.
     sbind (sbind (py_getitem configuration (PStr ''hosts'')) (\<lambda>hosts.
            sbind (py_getitem hosts host) (\<lambda>h.
            sbind (py_getitem h (PStr ''addresses'')) (\<lambda>addresses.
              py_getitem addresses ifname)))) (\<lambda>address.
     sbind (case dict_get ifnames ifname of
              Some t \<Rightarrow> ipv4_network (py_str (t_subnet t))
            | None \<Rightarrow> Inl KeyError) (\<lambda>subnet.
     sbind (render_template render configuration ''interface'' ''content''
              [(''device'', CPy device), (''ifname'', CPy ifname), (''address'', CPy address),
               (''network_address'', CAddr (network_address subnet)),
               (''netmask'', CAddr (netmask subnet))]) (\<lambda>content.
       Inr (filename, content))))))"

definition configure_interfaces ::
  "flags \<Rightarrow> (string \<Rightarrow> bool) \<Rightarrow> engine \<Rightarrow> pyval \<Rightarrow> arguments \<Rightarrow> unit prog" where
  "configure_interfaces fl writable render configuration arguments =
     pbind (resolve_host configuration (host_arg arguments)) (\<lambda>(host, detail).
     pbind (lift (py_path configuration [''global'', ''vlan''])) (\<lambda>vlan.
     pbind (lift (py_getitem detail (PStr ''device''))) (\<lambda>device.
     pbind (lift (interface_map configuration device)) (\<lambda>ifnames.
     pfor (py_sorted (map fst ifnames)) (\<lambda>ifname.
       pbind (lift (interface_file render configuration (destination arguments) host device
                      ifnames ifname)) (\<lambda>(filename, content).
       write_out fl writable (destination arguments) filename content))))))"

section \<open>The files each renderer produces\<close>

text \<open>
  What each renderer promises, as a pure function of the document and the resolved
  host entry: the name and content of the file it writes (the interface renderer: of
  each file, in the order it writes them). The lemmas below show that each renderer is
  the host lookup, then its specification, then the output block on the result. The
  route and rule renderers are one specification at two template sections.
\<close>

definition device_plan :: "engine \<Rightarrow> pyval \<Rightarrow> string option \<Rightarrow> pyval \<Rightarrow> exc + string \<times> string"
where
  "device_plan render configuration dest detail =
     sbind (py_path configuration [''global'', ''vlan'']) (\<lambda>vlan.
     sbind (py_getitem detail (PStr ''device'')) (\<lambda>device.
     sbind (render_template render configuration ''device'' ''filename''
              [(''device'', CPy device)]) (\<lambda>name.
     sbind (join_dest dest name) (\<lambda>filename.
     sbind (render_template render configuration ''device'' ''content''
              [(''device'', CPy device), (''vlan'', CPy vlan)]) (\<lambda>content.
       Inr (filename, content))))))"

definition table_plan ::
  "string \<Rightarrow> engine \<Rightarrow> pyval \<Rightarrow> string option \<Rightarrow> pyval \<Rightarrow> exc + string \<times> string" where
  "table_plan sec render configuration dest detail =
     sbind (py_getitem detail (PStr ''device'')) (\<lambda>device.
     sbind (table_contexts configuration device) (\<lambda>tables.
     sbind (render_template render configuration sec ''filename''
              [(''device'', CPy device)]) (\<lambda>name.
     sbind (join_dest dest name) (\<lambda>filename.
     sbind (render_template render configuration sec ''content''
              [(''tables'', CList (map ctx_cval tables))]) (\<lambda>content.
       Inr (filename, content))))))"

definition interfaces_plan ::
  "engine \<Rightarrow> pyval \<Rightarrow> string option \<Rightarrow> pyval \<Rightarrow> pyval \<Rightarrow> exc + (string \<times> string) list" where
  "interfaces_plan render configuration dest host detail =
     sbind (py_path configuration [''global'', ''vlan'']) (\<lambda>vlan.
     sbind (py_getitem detail (PStr ''device'')) (\<lambda>device.
     sbind (interface_map configuration device) (\<lambda>ifnames.
     smap (interface_file render configuration dest host device ifnames)
          (py_sorted (map fst ifnames)))))"

section \<open>An example document\<close>

text \<open>A document to run the renderers on: one host with two interfaces, two routing
  tables (the interface name and subnet of the second are parameters) and templates for
  the four sections. \<open>global\<close> is the entry list of the \<^verbatim>\<open>global\<close> section.\<close>

definition example_table_list :: "string \<Rightarrow> string \<Rightarrow> (pyval \<times> pyval) list" where
  "example_table_list ifname2 subnet2 =
     [(PStr ''office'', PDict [(PStr ''primary ifname'', PStr ifname2),
                               (PStr ''subnet'', PStr subnet2),
                               (PStr ''default gateway'', PStr ''10.1.0.1'')]),
      (PStr ''main'', PDict [(PStr ''primary ifname'', PStr ''eth0''),
                             (PStr ''subnet'', PStr ''10.0.0.0/24''),
                             (PStr ''default gateway'', PStr ''10.0.0.1'')])]"

definition example_host :: pyval where
  "example_host =
     PDict [(PStr ''device'', PStr ''eth0''),
            (PStr ''addresses'', PDict [(PStr ''eth0'', PStr ''10.0.0.5''),
                                        (PStr ''eth1'', PStr ''10.1.0.5'')])]"

definition example_doc :: "(pyval \<times> pyval) list \<Rightarrow> string \<Rightarrow> string \<Rightarrow> pyval" where
  "example_doc global ifname2 subnet2 = PDict
     [(PStr ''global'', PDict global),
      (PStr ''hosts'', PDict [(PStr ''web1'', example_host)]),
      (PStr ''tables'', PDict (example_table_list ifname2 subnet2)),
      (PStr ''templates'', PDict
         [(PStr ''device'', PDict [(PStr ''filename'', PStr ''vlan-{{ device }}''),
                                   (PStr ''content'', PStr ''VLAN=yes'')]),
          (PStr ''route'', PDict [(PStr ''filename'', PStr ''route-{{ device }}''),
                                  (PStr ''content'', PStr ''{{ tables }}'')]),
          (PStr ''rule'', PDict [(PStr ''filename'', PStr ''rule-{{ device }}''),
                                 (PStr ''content'', PStr ''{{ tables }}'')]),
          (PStr ''interface'', PDict [(PStr ''filename'', PStr ''ifcfg-{{ ifname }}''),
                                      (PStr ''content'', PStr ''IPADDR={{ address }}'')])])]"

section \<open>Lemmas\<close>

text \<open>The definitions a renderer is evaluated with on a concrete document.\<close>

lemmas render_eval = py_getitem_def py_iter_def py_hashable_def py_eq_def py_num_def
  py_sorted_def py_order_key_def py_str_def py_split0_def split0_def
  render_template_def template_src_def interpolate_def var_str_def strip_spaces_def prepend_def
  join_dest_def posix_join_def startswith_def endswith_def
  table_contexts_def table_entry_def ctx_cval_def interface_map_def interface_file_def
  host_lookup_def host_arg_val_def host_matches_def
  example_doc_def example_table_list_def example_host_def

lemma configure_device_plan:
  "configure_device fl writable render configuration arguments =
     pbind (resolve_host configuration (host_arg arguments)) (\<lambda>(host, detail).
     pbind (lift (device_plan render configuration (destination arguments) detail))
       (\<lambda>(filename, content). write_out fl writable (destination arguments) filename content))"
  unfolding configure_device_def device_plan_def by (simp add: pbind_lift_sbind)

lemma configure_routes_plan:
  "configure_routes fl writable render configuration arguments =
     pbind (resolve_host configuration (host_arg arguments)) (\<lambda>(host, detail).
     pbind (lift (table_plan ''route'' render configuration (destination arguments) detail))
       (\<lambda>(filename, content). write_out fl writable (destination arguments) filename content))"
  unfolding configure_routes_def table_plan_def by (simp add: pbind_lift_sbind)

lemma configure_rules_plan:
  "configure_rules fl writable render configuration arguments =
     pbind (resolve_host configuration (host_arg arguments)) (\<lambda>(host, detail).
     pbind (lift (table_plan ''rule'' render configuration (destination arguments) detail))
       (\<lambda>(filename, content). write_out fl writable (destination arguments) filename content))"
  unfolding configure_rules_def table_plan_def by (simp add: pbind_lift_sbind)

lemma configure_interfaces_loop:
  assumes "resolve_host configuration (host_arg arguments) = ([], Inr (host, detail))"
    and "py_path configuration [''global'', ''vlan''] = Inr vlan"
    and "py_getitem detail (PStr ''device'') = Inr device"
    and "interface_map configuration device = Inr ifnames"
  shows "configure_interfaces fl writable render configuration arguments =
           pfor (py_sorted (map fst ifnames)) (\<lambda>ifname.
             pbind (lift (interface_file render configuration (destination arguments) host device
                            ifnames ifname))
               (\<lambda>(filename, content). write_out fl writable (destination arguments) filename content))"
  using assms by (simp add: configure_interfaces_def)

lemma configure_interfaces_plan:
  assumes "resolve_host configuration (host_arg arguments) = ([], Inr (host, detail))"
    and "interfaces_plan render configuration (destination arguments) host detail = Inr files"
  shows "configure_interfaces fl writable render configuration arguments =
           pfor files (\<lambda>(filename, content). write_out fl writable (destination arguments) filename content)"
proof -
  obtain vlan device ifnames where
    "py_path configuration [''global'', ''vlan''] = Inr vlan"
    "py_getitem detail (PStr ''device'') = Inr device"
    "interface_map configuration device = Inr ifnames"
    and files: "smap (interface_file render configuration (destination arguments) host device ifnames)
                  (py_sorted (map fst ifnames)) = Inr files"
    using assms(2) by (auto simp: interfaces_plan_def sbind_eq_Inr_iff)
  then show ?thesis
    using assms(1) by (simp add: configure_interfaces_loop pfor_lift_smap [OF files])
qed

lemma resolve_Inl_renderers:
  assumes "snd (resolve_host configuration (host_arg arguments)) = Inl e"
  shows "configure_device fl writable render configuration arguments = (fst (resolve_host configuration (host_arg arguments)), Inl e)"
    and "configure_routes fl writable render configuration arguments = (fst (resolve_host configuration (host_arg arguments)), Inl e)"
    and "configure_rules fl writable render configuration arguments = (fst (resolve_host configuration (host_arg arguments)), Inl e)"
    and "configure_interfaces fl writable render configuration arguments = (fst (resolve_host configuration (host_arg arguments)), Inl e)"
  using assms by (simp_all add: configure_device_def configure_routes_def configure_rules_def
      configure_interfaces_def pbind_Inl)


lemma renderers_dry_run:
  assumes "\<not> YES fl"
  shows "written (fst (configure_device fl writable render configuration arguments)) = []"
    and "written (fst (configure_routes fl writable render configuration arguments)) = []"
    and "written (fst (configure_rules fl writable render configuration arguments)) = []"
    and "written (fst (configure_interfaces fl writable render configuration arguments)) = []"
  by (auto intro!: written_pbind_Nil written_pfor_Nil
      simp: configure_device_plan configure_routes_plan configure_rules_plan configure_interfaces_def
        resolve_host_writes_nothing write_out_dry [OF assms] dry_run_writes_nothing lift_def
      split: prod.split)

lemma smap_table_entry:
  "smap (table_entry tables device) keys = Inr ts \<Longrightarrow>
   map t_table ts = keys \<and> (\<forall>t \<in> set ts. t_device t = device)"
  by (induction keys arbitrary: ts) (auto simp: sbind_eq_Inr_iff table_entry_def)

text \<open>C21. The contexts passed to the route and rule templates are one per table of the
  document, in ascending table-name order, each carrying the host's device.\<close>

theorem table_contexts_one_per_table:
  assumes "py_getitem configuration (PStr ''tables'') = Inr (PDict kvs)"
    and "table_contexts configuration device = Inr ts"
  shows "mset (map t_table ts) = mset (map fst kvs) \<and> sorted (map (py_order_key \<circ> t_table) ts)
         \<and> (\<forall>t \<in> set ts. t_device t = device)"
proof -
  have "smap (table_entry (PDict kvs) device) (py_sorted (map fst kvs)) = Inr ts"
    using assms by (simp add: table_contexts_def py_iter_def)
  from smap_table_entry [OF this] show ?thesis
    by (simp add: py_sorted_def flip: map_map)
qed

text \<open>A permutation of a well-formed tables dictionary changes neither the sorted keys
  nor the entry read for any key.\<close>

lemma tables_perm:
  assumes "dict_wf kvs" and "mset kvs = mset kvs'"
  shows "py_sorted (map fst kvs) = py_sorted (map fst kvs')
         \<and> table_entry (PDict kvs) device = table_entry (PDict kvs') device"
proof -
  have keys: "py_sorted (map fst kvs) = py_sorted (map fst kvs')"
    using assms by (intro py_sorted_perm) (simp_all add: dict_wf_def)
  have "py_getitem (PDict kvs) t = py_getitem (PDict kvs') t" for t
    using assms by (simp add: py_getitem_def dict_wf_def dict_get_perm)
  then show ?thesis
    by (simp add: keys table_entry_def fun_eq_iff)
qed

text \<open>C22. The contexts do not depend on the order in which the document lists the tables:
  a permutation of a well-formed tables dictionary gives the same contexts.\<close>

theorem table_contexts_perm:
  assumes "py_getitem configuration (PStr ''tables'') = Inr (PDict kvs)"
    and "py_getitem configuration' (PStr ''tables'') = Inr (PDict kvs')"
    and "dict_wf kvs" and "mset kvs = mset kvs'"
  shows "table_contexts configuration device = table_contexts configuration' device"
  using assms(1,2) tables_perm [OF assms(3,4)] by (simp add: table_contexts_def py_iter_def)


lemma collect_ifnames_fold:
  "collect_ifnames tables device m keys = Inr m' \<Longrightarrow>
   \<exists>ts. smap (table_entry tables device) keys = Inr ts
     \<and> m' = fold (\<lambda>t m. dict_set m (t_ifname t) t) ts m"
proof (induction tables device m keys arbitrary: m' rule: collect_ifnames.induct)
  case (1 tables device m)
  then show ?case by simp
next
  case (2 tables device m table rest)
  then obtain t where t: "table_entry tables device table = Inr t" "py_hashable (t_ifname t)"
    and rest: "collect_ifnames tables device (dict_set m (t_ifname t) t) rest = Inr m'"
    by (auto simp: sbind_eq_Inr_iff split: if_splits)
  then obtain ts where "smap (table_entry tables device) rest = Inr ts"
    and "m' = fold (\<lambda>t m. dict_set m (t_ifname t) t) ts (dict_set m (t_ifname t) t)"
    using "2.IH" by blast
  then show ?case using t by (intro exI [of _ "t # ts"]) simp
qed

lemma dict_get_fold_set:
  "dict_get (fold (\<lambda>t m. dict_set m (t_ifname t) t) ts m) i =
     (case filter (\<lambda>t. py_eq i (t_ifname t)) (rev ts) of [] \<Rightarrow> dict_get m i | t # _ \<Rightarrow> Some t)"
  by (induction ts arbitrary: m) (auto simp: dict_get_dict_set split: list.split)

text \<open>C23. When several tables name the same primary interface, the interface map keeps
  the last of them in ascending table order; the earlier tables' subnets are dropped.\<close>

theorem interface_map_last_table_wins:
  assumes "interface_map configuration device = Inr ifnames"
    and "table_contexts configuration device = Inr ts"
  shows "dict_get ifnames i =
           (case filter (\<lambda>t. py_eq i (t_ifname t)) (rev ts) of [] \<Rightarrow> None | t # _ \<Rightarrow> Some t)"
proof -
  obtain tables keys ts' where
    "py_getitem configuration (PStr ''tables'') = Inr tables" "py_iter tables = Inr keys"
    and ts': "smap (table_entry tables device) (py_sorted keys) = Inr ts'"
    and m: "ifnames = fold (\<lambda>t m. dict_set m (t_ifname t) t) ts' []"
    using assms(1) by (auto simp: interface_map_def sbind_eq_Inr_iff dest!: collect_ifnames_fold)
  then have "ts' = ts"
    using assms(2) by (simp add: table_contexts_def)
  then show ?thesis
    by (simp add: m dict_get_fold_set split: list.split)
qed



section \<open>Witnesses\<close>

theorem table_contexts_one_per_table_witness:
  "py_getitem (example_doc [] ''eth1'' ''10.1.0.0/24'') (PStr ''tables'')
     = Inr (PDict (example_table_list ''eth1'' ''10.1.0.0/24''))
   \<and> table_contexts (example_doc [] ''eth1'' ''10.1.0.0/24'') (PStr ''eth0'') = Inr [\<lparr>t_table = PStr ''main'', t_device = PStr ''eth0'', t_ifname = PStr ''eth0'',
       t_subnet = PStr ''10.0.0.0/24'', t_gateway = PStr ''10.0.0.1''\<rparr>, \<lparr>t_table = PStr ''office'', t_device = PStr ''eth0'', t_ifname = PStr ''eth1'',
       t_subnet = PStr ''10.1.0.0/24'', t_gateway = PStr ''10.1.0.1''\<rparr>]
   \<and> mset (map t_table [\<lparr>t_table = PStr ''main'', t_device = PStr ''eth0'', t_ifname = PStr ''eth0'',
       t_subnet = PStr ''10.0.0.0/24'', t_gateway = PStr ''10.0.0.1''\<rparr>, \<lparr>t_table = PStr ''office'', t_device = PStr ''eth0'', t_ifname = PStr ''eth1'',
       t_subnet = PStr ''10.1.0.0/24'', t_gateway = PStr ''10.1.0.1''\<rparr>]) = mset (map fst (example_table_list ''eth1'' ''10.1.0.0/24''))
   \<and> sorted (map (py_order_key \<circ> t_table) [\<lparr>t_table = PStr ''main'', t_device = PStr ''eth0'', t_ifname = PStr ''eth0'',
       t_subnet = PStr ''10.0.0.0/24'', t_gateway = PStr ''10.0.0.1''\<rparr>, \<lparr>t_table = PStr ''office'', t_device = PStr ''eth0'', t_ifname = PStr ''eth1'',
       t_subnet = PStr ''10.1.0.0/24'', t_gateway = PStr ''10.1.0.1''\<rparr>])
   \<and> list_all (\<lambda>t. t_device t = PStr ''eth0'') [\<lparr>t_table = PStr ''main'', t_device = PStr ''eth0'', t_ifname = PStr ''eth0'',
       t_subnet = PStr ''10.0.0.0/24'', t_gateway = PStr ''10.0.0.1''\<rparr>, \<lparr>t_table = PStr ''office'', t_device = PStr ''eth0'', t_ifname = PStr ''eth1'',
       t_subnet = PStr ''10.1.0.0/24'', t_gateway = PStr ''10.1.0.1''\<rparr>]"
proof -
  have tables: "py_getitem (example_doc [] ''eth1'' ''10.1.0.0/24'') (PStr ''tables'')
     = Inr (PDict (example_table_list ''eth1'' ''10.1.0.0/24''))"
    and ctx: "table_contexts (example_doc [] ''eth1'' ''10.1.0.0/24'') (PStr ''eth0'') = Inr [\<lparr>t_table = PStr ''main'', t_device = PStr ''eth0'', t_ifname = PStr ''eth0'',
       t_subnet = PStr ''10.0.0.0/24'', t_gateway = PStr ''10.0.0.1''\<rparr>, \<lparr>t_table = PStr ''office'', t_device = PStr ''eth0'', t_ifname = PStr ''eth1'',
       t_subnet = PStr ''10.1.0.0/24'', t_gateway = PStr ''10.1.0.1''\<rparr>]"
    by (simp_all add: render_eval)
  show ?thesis
    using table_contexts_one_per_table [OF tables ctx] tables ctx by simp
qed

theorem table_contexts_perm_witness:
  "table_contexts (PDict [(PStr ''tables'', PDict (example_table_list ''eth1'' ''10.1.0.0/24''))]) (PStr ''eth0'')
   = table_contexts (PDict [(PStr ''tables'', PDict (rev (example_table_list ''eth1'' ''10.1.0.0/24'')))]) (PStr ''eth0'')"
  by (rule table_contexts_perm [where kvs = "example_table_list ''eth1'' ''10.1.0.0/24''"
        and kvs' = "rev (example_table_list ''eth1'' ''10.1.0.0/24'')"])
     (simp_all add: render_eval dict_wf_def)


theorem interface_map_last_table_wins_witness:
  "interface_map (example_doc [] ''eth0'' ''10.1.0.0/24'') (PStr ''eth0'') = Inr [(PStr ''eth0'', \<lparr>t_table = PStr ''office'', t_device = PStr ''eth0'', t_ifname = PStr ''eth0'',
       t_subnet = PStr ''10.1.0.0/24'', t_gateway = PStr ''10.1.0.1''\<rparr>)]
   \<and> table_contexts (example_doc [] ''eth0'' ''10.1.0.0/24'') (PStr ''eth0'') = Inr [\<lparr>t_table = PStr ''main'', t_device = PStr ''eth0'', t_ifname = PStr ''eth0'',
       t_subnet = PStr ''10.0.0.0/24'', t_gateway = PStr ''10.0.0.1''\<rparr>, \<lparr>t_table = PStr ''office'', t_device = PStr ''eth0'', t_ifname = PStr ''eth0'',
       t_subnet = PStr ''10.1.0.0/24'', t_gateway = PStr ''10.1.0.1''\<rparr>]
   \<and> dict_get [(PStr ''eth0'', \<lparr>t_table = PStr ''office'', t_device = PStr ''eth0'', t_ifname = PStr ''eth0'',
       t_subnet = PStr ''10.1.0.0/24'', t_gateway = PStr ''10.1.0.1''\<rparr>)] (PStr ''eth0'') = Some \<lparr>t_table = PStr ''office'', t_device = PStr ''eth0'', t_ifname = PStr ''eth0'',
       t_subnet = PStr ''10.1.0.0/24'', t_gateway = PStr ''10.1.0.1''\<rparr>"
proof -
  have m: "interface_map (example_doc [] ''eth0'' ''10.1.0.0/24'') (PStr ''eth0'') = Inr [(PStr ''eth0'', \<lparr>t_table = PStr ''office'', t_device = PStr ''eth0'', t_ifname = PStr ''eth0'',
       t_subnet = PStr ''10.1.0.0/24'', t_gateway = PStr ''10.1.0.1''\<rparr>)]"
    and ts: "table_contexts (example_doc [] ''eth0'' ''10.1.0.0/24'') (PStr ''eth0'') = Inr [\<lparr>t_table = PStr ''main'', t_device = PStr ''eth0'', t_ifname = PStr ''eth0'',
       t_subnet = PStr ''10.0.0.0/24'', t_gateway = PStr ''10.0.0.1''\<rparr>, \<lparr>t_table = PStr ''office'', t_device = PStr ''eth0'', t_ifname = PStr ''eth0'',
       t_subnet = PStr ''10.1.0.0/24'', t_gateway = PStr ''10.1.0.1''\<rparr>]"
    by (simp_all add: render_eval)
  show ?thesis
    using interface_map_last_table_wins [OF m ts, of "PStr ''eth0''"] m ts by (simp add: py_eq_def py_num_def)
qed



end
