(* ===== verification/Configure.thy ===== *)
theory Configure
  imports Renderers
begin

text \<open>
  \<^verbatim>\<open>configure\<close> (\<^verbatim>\<open>src/iftool.py\<close> lines 81-95); \<^verbatim>\<open>main\<close> is in the root theory. The
  environment supplies what the program reads from the machine: the host name
  (\<^verbatim>\<open>socket.gethostname()\<close>), the working directory (\<^verbatim>\<open>os.getcwd()\<close>) and which
  paths can be opened for writing. The document loader (\<^verbatim>\<open>open\<close> and
  \<^verbatim>\<open>yaml.load(file, CustomLoader)\<close>, lines 66-78 and 88-89) is a parameter: a function
  from the template path to the parsed document or the exception loading raised.
  Command-line parsing by docopt is not modelled; \<open>main\<close> starts from the dictionary
  docopt returns.
\<close>

record env =
  hostname :: string
  cwd :: string
  writable :: "string \<Rightarrow> bool"

type_synonym loader = "string \<Rightarrow> exc + pyval"

text \<open>\<^verbatim>\<open>x or y\<close> for \<open>x\<close> a string or \<^verbatim>\<open>None\<close>: the empty string is false too.\<close>

definition str_or :: "string option \<Rightarrow> string \<Rightarrow> string" where
  "str_or a b = (case a of Some s \<Rightarrow> if s = [] then b else s | None \<Rightarrow> b)"

definition with_defaults :: "env \<Rightarrow> arguments \<Rightarrow> arguments" where
  "with_defaults ev arguments =
     arguments\<lparr>host_arg := Some (str_or (host_arg arguments) (hostname ev)),
               destination := Some (str_or (destination arguments) (cwd ev))\<rparr>"

definition configure :: "flags \<Rightarrow> env \<Rightarrow> engine \<Rightarrow> loader \<Rightarrow> arguments \<Rightarrow> unit prog" where
  "configure fl ev render load arguments0 =
     (let arguments = with_defaults ev arguments0 in
      pbind (lift (load (template_arg arguments))) (\<lambda>configuration.
      pbind (lift (py_path configuration [''global'', ''vlan''])) (\<lambda>vlan.
      pbind (if py_truthy vlan
             then configure_device fl (writable ev) render configuration arguments
             else ret ()) (\<lambda>_.
      pbind (configure_routes fl (writable ev) render configuration arguments) (\<lambda>_.
      pbind (configure_rules fl (writable ev) render configuration arguments) (\<lambda>_.
      configure_interfaces fl (writable ev) render configuration arguments))))))"

section \<open>The files a run produces\<close>

text \<open>The specification of a run: the files it produces, in order. The device file comes
  first when \<^verbatim>\<open>global.vlan\<close> is truthy, then the route file, the rule file and one file
  per interface.\<close>

definition configure_plan :: "env \<Rightarrow> engine \<Rightarrow> loader \<Rightarrow> arguments \<Rightarrow> exc + (string \<times> string) list"
where
  "configure_plan ev render load arguments0 =
     (let arguments = with_defaults ev arguments0; dest = destination arguments in
      sbind (load (template_arg arguments)) (\<lambda>configuration.
      sbind (py_path configuration [''global'', ''vlan'']) (\<lambda>vlan.
      sbind (host_lookup configuration (host_arg arguments)) (\<lambda>(host, detail).
      sbind (if py_truthy vlan then sbind (device_plan render configuration dest detail) (\<lambda>f. Inr [f])
             else Inr []) (\<lambda>device_files.
      sbind (table_plan ''route'' render configuration dest detail) (\<lambda>route_file.
      sbind (table_plan ''rule'' render configuration dest detail) (\<lambda>rule_file.
      sbind (interfaces_plan render configuration dest host detail) (\<lambda>interface_files.
        Inr (device_files @ route_file # rule_file # interface_files)))))))))"

section \<open>Lemmas\<close>

lemma destination_with_defaults: "destination (with_defaults ev arguments) \<noteq> None"
  by (simp add: with_defaults_def)

text \<open>A run whose plan succeeds performs the output block on each planned file in turn.\<close>

lemma configure_runs_plan:
  assumes plan: "configure_plan ev render load arguments = Inr files"
    and out: "\<And>f c. (f, c) \<in> set files \<Longrightarrow>
      write_out fl (writable ev) (destination (with_defaults ev arguments)) f c = (g (f, c), Inr ())"
  shows "configure fl ev render load arguments = (concat (map g files), Inr ())"
proof -
  define a where "a = with_defaults ev arguments"
  obtain configuration vlan host detail device_files route_file rule_file interface_files where
    load: "load (template_arg a) = Inr configuration"
    and vlan: "py_path configuration [''global'', ''vlan''] = Inr vlan"
    and host: "host_lookup configuration (host_arg a) = Inr (host, detail)"
    and dev: "(if py_truthy vlan then sbind (device_plan render configuration (destination a) detail)
                 (\<lambda>f. Inr [f]) else Inr []) = Inr device_files"
    and route: "table_plan ''route'' render configuration (destination a) detail = Inr route_file"
    and rule: "table_plan ''rule'' render configuration (destination a) detail = Inr rule_file"
    and ifs: "interfaces_plan render configuration (destination a) host detail = Inr interface_files"
    and files: "files = device_files @ route_file # rule_file # interface_files"
    using plan unfolding configure_plan_def a_def Let_def
    by (auto simp: sbind_eq_Inr_iff split: prod.splits)
  have resolve: "resolve_host configuration (host_arg a) = ([], Inr (host, detail))"
    using host by (rule resolve_host_lookup)
  have step: "write_out fl (writable ev) (destination a) (fst x) (snd x) = (g x, Inr ())"
    if "x \<in> set files" for x
    using out [of "fst x" "snd x"] that by (simp add: a_def)
  have "configure_device fl (writable ev) render configuration a = (concat (map g device_files), Inr ())"
    if "py_truthy vlan"
    using that dev resolve step
    by (auto simp: configure_device_plan files sbind_eq_Inr_iff)
  moreover have "configure_routes fl (writable ev) render configuration a = (g route_file, Inr ())"
    using route resolve step by (auto simp: configure_routes_plan case_prod_beta files)
  moreover have "configure_rules fl (writable ev) render configuration a = (g rule_file, Inr ())"
    using rule resolve step by (auto simp: configure_rules_plan case_prod_beta files)
  moreover have "configure_interfaces fl (writable ev) render configuration a =
      (concat (map g interface_files), Inr ())"
    using configure_interfaces_plan [OF resolve ifs]
    by (simp add: case_prod_beta pfor_all_ok step files)
  ultimately show ?thesis
    using dev unfolding configure_def Let_def a_def [symmetric] load vlan pbind_lift
    by (cases "py_truthy vlan") (auto simp: files pbind_def)
qed


lemma configure_dry_writes_nothing:
  "\<not> YES fl \<Longrightarrow> written (fst (configure fl ev render load arguments)) = []"
  unfolding configure_def Let_def
  by (auto intro!: written_pbind_Nil simp: renderers_dry_run)

lemma configure_resolve_fails:
  assumes "load (template_arg (with_defaults ev arguments)) = Inr configuration"
    and "py_path configuration [''global'', ''vlan''] = Inr vlan"
    and "snd (resolve_host configuration (host_arg (with_defaults ev arguments))) = Inl e"
  shows "configure fl ev render load arguments =
           (fst (resolve_host configuration (host_arg (with_defaults ev arguments))), Inl e)"
  using assms resolve_Inl_renderers [OF assms(3)]
  by (cases "py_truthy vlan") (simp_all add: configure_def pbind_Inl)

lemma configure_load_fails:
  "load (template_arg (with_defaults ev arguments)) = Inl e \<Longrightarrow>
   configure fl ev render load arguments = ([], Inl e)"
  by (simp add: configure_def throw_def)

lemma configure_vlan_fails:
  assumes "load (template_arg (with_defaults ev arguments)) = Inr configuration"
    and "py_path configuration [''global'', ''vlan''] = Inl e"
  shows "configure fl ev render load arguments = ([], Inl e)"
  using assms by (simp add: configure_def throw_def)

lemma host_arg_with_defaults:
  "host_arg_val (host_arg (with_defaults ev arguments)) = PStr (str_or (host_arg arguments) (hostname ev))"
  by (simp add: with_defaults_def host_arg_val_def)

text \<open>A run reads the argument dictionary only through the template path, the host and
  the destination, and the flags only through \<^verbatim>\<open>YES\<close> and \<^verbatim>\<open>VERBOSE\<close>.\<close>

lemma renderers_arguments_cong:
  assumes "host_arg a = host_arg a'" and "destination a = destination a'"
  shows "configure_device fl w render c a = configure_device fl w render c a'"
    and "configure_routes fl w render c a = configure_routes fl w render c a'"
    and "configure_rules fl w render c a = configure_rules fl w render c a'"
    and "configure_interfaces fl w render c a = configure_interfaces fl w render c a'"
  using assms
  by (simp_all add: configure_device_def configure_routes_def configure_rules_def
      configure_interfaces_def)

lemma configure_arguments_cong:
  assumes "template_arg a = template_arg a'" and "host_arg a = host_arg a'"
    and "destination a = destination a'"
  shows "configure fl ev render load a = configure fl ev render load a'"
proof -
  have h: "host_arg (with_defaults ev a) = host_arg (with_defaults ev a')"
    and d: "destination (with_defaults ev a) = destination (with_defaults ev a')"
    and t: "template_arg (with_defaults ev a) = template_arg (with_defaults ev a')"
    using assms by (simp_all add: with_defaults_def)
  show ?thesis
    unfolding configure_def Let_def t renderers_arguments_cong [OF h d] ..
qed

lemma configure_overwrite:
  "configure (fl\<lparr>OVERWRITE := b\<rparr>) ev render load a = configure fl ev render load a"
  unfolding configure_def configure_device_def configure_routes_def configure_rules_def
    configure_interfaces_def write_out_overwrite ..

lemma configure_env_cong:
  assumes "with_defaults ev a = with_defaults ev' a'" and "writable ev = writable ev'"
  shows "configure fl ev render load a = configure fl ev' render load a'"
  unfolding configure_def Let_def assms ..

text \<open>C9. The machine's host name and working directory are read only as defaults: a run
  does exactly what a run on any other machine does when given \<^verbatim>\<open>--host\<close> and
  \<^verbatim>\<open><destination>\<close> explicitly, with the host name standing for an absent or empty
  \<^verbatim>\<open>--host\<close> and the working directory for an absent or empty destination (Python's
  \<^verbatim>\<open>or\<close>, lines 85-86).\<close>

theorem configure_defaults:
  assumes "hostname ev \<noteq> []" and "cwd ev \<noteq> []"
  shows "configure fl ev render load arguments =
     configure fl (ev\<lparr>hostname := hn, cwd := wd\<rparr>) render load
       (arguments\<lparr>host_arg := Some (case host_arg arguments of None \<Rightarrow> hostname ev
                                      | Some h \<Rightarrow> if h = [] then hostname ev else h),
                  destination := Some (case destination arguments of None \<Rightarrow> cwd ev
                                      | Some p \<Rightarrow> if p = [] then cwd ev else p)\<rparr>)"
proof -
  have "with_defaults ev arguments =
        with_defaults (ev\<lparr>hostname := hn, cwd := wd\<rparr>)
          (arguments\<lparr>host_arg := Some (case host_arg arguments of None \<Rightarrow> hostname ev
                                      | Some h \<Rightarrow> if h = [] then hostname ev else h),
                     destination := Some (case destination arguments of None \<Rightarrow> cwd ev
                                      | Some p \<Rightarrow> if p = [] then cwd ev else p)\<rparr>)"
    using assms by (simp add: with_defaults_def str_or_def split: option.split)
  then show ?thesis by (rule configure_env_cong) simp
qed

section \<open>Witnesses\<close>

theorem configure_defaults_witness:
  "configure \<lparr>VERBOSE = False, YES = True, OVERWRITE = False\<rparr>
     \<lparr>hostname = ''web1.example.com'', cwd = ''/etc/net'', writable = \<lambda>_. True\<rparr> interpolate
     (\<lambda>_. Inr (example_doc [(PStr ''vlan'', PInt 100)] ''eth1'' ''10.1.0.0/24''))
     \<lparr>configure_cmd = True, host_arg = None, template_arg = ''net.yaml'', destination = Some [],
      verbose_opt = False, yes_opt = True, overwrite_opt = False, version_opt = False\<rparr>
   = configure \<lparr>VERBOSE = False, YES = True, OVERWRITE = False\<rparr>
     \<lparr>hostname = ''db1'', cwd = ''/tmp'', writable = \<lambda>_. True\<rparr> interpolate
     (\<lambda>_. Inr (example_doc [(PStr ''vlan'', PInt 100)] ''eth1'' ''10.1.0.0/24''))
     \<lparr>configure_cmd = True, host_arg = Some ''web1.example.com'', template_arg = ''net.yaml'',
      destination = Some ''/etc/net'', verbose_opt = False, yes_opt = True, overwrite_opt = False,
      version_opt = False\<rparr>"
  using configure_defaults [where ev = "\<lparr>hostname = ''web1.example.com'', cwd = ''/etc/net'', writable = \<lambda>_. True\<rparr>"
      and hn = "''db1''" and wd = "''/tmp''"
      and arguments = "\<lparr>configure_cmd = True, host_arg = None, template_arg = ''net.yaml'', destination = Some [],
        verbose_opt = False, yes_opt = True, overwrite_opt = False, version_opt = False\<rparr>"
      and fl = "\<lparr>VERBOSE = False, YES = True, OVERWRITE = False\<rparr>" and render = interpolate
      and load = "\<lambda>_. Inr (example_doc [(PStr ''vlan'', PInt 100)] ''eth1'' ''10.1.0.0/24'')"]
  by simp

end
