(* ===== verification/Loader.thy ===== *)
theory Loader
  imports PyRuntime
begin

text \<open>
  The document loader (\<^verbatim>\<open>src/iftool.py\<close> lines 66-78 and 88-89): \<^verbatim>\<open>yaml.load\<close>
  with \<^verbatim>\<open>CustomLoader\<close>, whose \<^verbatim>\<open>!include\<close> constructor loads another file, named
  relative to the directory of the file being loaded, with a fresh \<^verbatim>\<open>CustomLoader\<close>.

  PyYAML's scanner, parser and scalar resolver are a parameter: a function from the text
  of a file to its node tree (\<open>ynode\<close>, scalars already resolved to \<^verbatim>\<open>None\<close>,
  booleans, integers or strings, \<^verbatim>\<open>!include\<close> scalars kept as such) or the
  \<open>YAMLError\<close> it raises. Construction, the include constructor and the files read are
  modelled. A file system is a map from paths to contents, \<open>None\<close> where
  \<^verbatim>\<open>open\<close> fails.

  Each nested include is a nested Python call, so a chain of includes deeper than the
  interpreter's recursion limit raises \<open>RuntimeError\<close>. The model makes that limit
  an explicit bound: \<open>load_file n\<close> allows \<open>n\<close> nested levels of includes. The
  exact number of levels CPython allows depends on the stack frames each level uses,
  so the theorems hold for every bound. Mapping entries are built in document order (CPython 2
  iterates a dictionary in hash order; the renderers' lemmas hold for any order).
\<close>

datatype ynode =
    YScalar pyval
  | YInclude string
  | YSeq "ynode list"
  | YMap "(ynode \<times> ynode) list"

type_synonym yaml_parser = "string \<Rightarrow> exc + ynode"

type_synonym files = "string \<Rightarrow> string option"

text \<open>\<^verbatim>\<open>os.path.split(p)[0]\<close> (\<^verbatim>\<open>posixpath.split\<close>): everything up to the last
  slash, with trailing slashes removed unless it consists of slashes only.\<close>

definition path_head :: "string \<Rightarrow> string" where
  "path_head p =
     (let head = rev (dropWhile (\<lambda>c. c \<noteq> CHR ''/'') (rev p)) in
      if head \<noteq> [] \<and> \<not> list_all (\<lambda>c. c = CHR ''/'') head
      then rev (dropWhile (\<lambda>c. c = CHR ''/'') (rev head)) else head)"

text \<open>Construction of a node tree (\<^verbatim>\<open>BaseConstructor.construct_object\<close>): a mapping
  is filled key by key, an unhashable key raising a constructor error and a repeated key
  replacing the earlier value; an include calls \<open>inc\<close> on the path joined onto the
  directory \<open>root\<close> of the file being loaded (lines 74-77).\<close>

function (sequential) construct :: "(string \<Rightarrow> exc + pyval) \<Rightarrow> string \<Rightarrow> ynode \<Rightarrow> exc + pyval"
and construct_seq :: "(string \<Rightarrow> exc + pyval) \<Rightarrow> string \<Rightarrow> ynode list \<Rightarrow> exc + pyval list"
and construct_map ::
  "(string \<Rightarrow> exc + pyval) \<Rightarrow> string \<Rightarrow> (pyval \<times> pyval) list \<Rightarrow> (ynode \<times> ynode) list
   \<Rightarrow> exc + (pyval \<times> pyval) list"
where
  "construct inc root (YScalar v) = Inr v"
| "construct inc root (YInclude name) = inc (posix_join root name)"
| "construct inc root (YSeq ns) = sbind (construct_seq inc root ns) (\<lambda>vs. Inr (PList vs))"
| "construct inc root (YMap kns) = sbind (construct_map inc root [] kns) (\<lambda>kvs. Inr (PDict kvs))"
| "construct_seq inc root [] = Inr []"
| "construct_seq inc root (n # ns) =
     sbind (construct inc root n) (\<lambda>v. sbind (construct_seq inc root ns) (\<lambda>vs. Inr (v # vs)))"
| "construct_map inc root acc [] = Inr acc"
| "construct_map inc root acc ((kn, vn) # kns) =
     sbind (construct inc root kn) (\<lambda>key.
       if \<not> py_hashable key then Inl YAMLError
       else sbind (construct inc root vn) (\<lambda>val. construct_map inc root (dict_set acc key val) kns))"
  by pat_completeness auto

termination
  by (relation "measure (case_sum (\<lambda>(_, _, n). size n)
                  (case_sum (\<lambda>(_, _, ns). size_list size ns)
                     (\<lambda>(_, _, _, kns). size_list (size_prod size size) kns)))") auto

text \<open>\<^verbatim>\<open>with open(path) as file: yaml.load(file, CustomLoader)\<close>, where includes
  are loaded by \<open>inc\<close>.\<close>

definition load_step ::
  "(string \<Rightarrow> exc + pyval) \<Rightarrow> yaml_parser \<Rightarrow> files \<Rightarrow> string \<Rightarrow> exc + pyval" where
  "load_step inc parse fs path =
     (case fs path of
        None \<Rightarrow> Inl IOError
      | Some text \<Rightarrow> sbind (parse text) (construct inc (path_head path)))"

text \<open>Loading with \<open>n\<close> nested levels of includes allowed; one level more raises
  \<open>RuntimeError\<close>.\<close>

fun load_file :: "nat \<Rightarrow> yaml_parser \<Rightarrow> files \<Rightarrow> string \<Rightarrow> exc + pyval" where
  "load_file 0 parse fs path = load_step (\<lambda>p. Inl RuntimeError) parse fs path"
| "load_file (Suc n) parse fs path = load_step (load_file n parse fs) parse fs path"

text \<open>A document CPython can hold: every dictionary in it, at any depth, has hashable
  keys no two of which are equal. A node tree whose scalars are such documents.\<close>

fun doc_wf :: "pyval \<Rightarrow> bool" where
  "doc_wf (PList vs) = list_all doc_wf vs"
| "doc_wf (PDict kvs) = (dict_wf kvs \<and> list_all (\<lambda>kv. doc_wf (fst kv) \<and> doc_wf (snd kv)) kvs)"
| "doc_wf v = True"

fun node_wf :: "ynode \<Rightarrow> bool" where
  "node_wf (YScalar v) = doc_wf v"
| "node_wf (YInclude name) = True"
| "node_wf (YSeq ns) = list_all node_wf ns"
| "node_wf (YMap kns) = list_all (\<lambda>kn. node_wf (fst kn) \<and> node_wf (snd kn)) kns"

text \<open>The include names of a node tree, in document order.\<close>

fun include_names :: "ynode \<Rightarrow> string list" where
  "include_names (YScalar v) = []"
| "include_names (YInclude name) = [name]"
| "include_names (YSeq ns) = concat (map include_names ns)"
| "include_names (YMap kns) = concat (map (\<lambda>kn. include_names (fst kn) @ include_names (snd kn)) kns)"

section \<open>Lemmas\<close>

lemma dict_set_all:
  "list_all (\<lambda>kv. P (fst kv) \<and> Q (snd kv)) m \<Longrightarrow> P k \<Longrightarrow> Q v \<Longrightarrow>
   list_all (\<lambda>kv. P (fst kv) \<and> Q (snd kv)) (dict_set m k v)"
  by (induction m k v rule: dict_set.induct) auto

lemma construct_wf:
  "(\<forall>p w. inc p = Inr w \<longrightarrow> doc_wf w) \<Longrightarrow>
     construct inc root n = Inr v \<Longrightarrow> node_wf n \<Longrightarrow> doc_wf v"
  "(\<forall>p w. inc p = Inr w \<longrightarrow> doc_wf w) \<Longrightarrow>
     construct_seq inc root ns = Inr vs \<Longrightarrow> list_all node_wf ns \<Longrightarrow> list_all doc_wf vs"
  "(\<forall>p w. inc p = Inr w \<longrightarrow> doc_wf w) \<Longrightarrow>
     construct_map inc root acc kns = Inr kvs \<Longrightarrow> doc_wf (PDict acc) \<Longrightarrow>
     list_all (\<lambda>kn. node_wf (fst kn) \<and> node_wf (snd kn)) kns \<Longrightarrow> doc_wf (PDict kvs)"
proof (induction inc root n and inc root ns and inc root acc kns arbitrary: v and vs and kvs
       rule: construct_construct_seq_construct_map.induct)
  case (8 inc root acc kn vn kns)
  then show ?case
    by (auto simp: sbind_eq_Inr_iff dict_set_wf dict_set_all split: if_splits)
qed (auto simp: sbind_eq_Inr_iff dict_wf_def split: if_splits)

lemma load_file_doc_wf:
  assumes "\<And>text n. parse text = Inr n \<Longrightarrow> node_wf n"
  shows "load_file k parse fs path = Inr v \<Longrightarrow> doc_wf v"
proof (induction k arbitrary: path v)
  case 0
  then show ?case
    by (auto simp: load_step_def sbind_eq_Inr_iff assms intro: construct_wf(1) split: option.splits)
next
  case (Suc k)
  then have "\<forall>p w. load_file k parse fs p = Inr w \<longrightarrow> doc_wf w" by blast
  with Suc.prems show ?case
    using construct_wf(1) assms
    by (fastforce simp: load_step_def sbind_eq_Inr_iff split: option.splits)
qed

text \<open>A part of a well-formed document is well formed.\<close>

lemma dict_get_in: "dict_get kvs k = Some v \<Longrightarrow> v \<in> snd ` set kvs"
  by (induction kvs) (auto split: if_splits)

lemma doc_wf_getitem: "doc_wf c \<Longrightarrow> py_getitem c k = Inr v \<Longrightarrow> doc_wf v"
proof (cases c)
  case (PList xs)
  then show "doc_wf c \<Longrightarrow> py_getitem c k = Inr v \<Longrightarrow> doc_wf v"
    by (auto simp: py_getitem_def py_list_index_def list_all_iff Let_def split: option.splits if_splits)
next
  case (PDict kvs)
  then show "doc_wf c \<Longrightarrow> py_getitem c k = Inr v \<Longrightarrow> doc_wf v"
    by (auto simp: py_getitem_def list_all_iff dest!: dict_get_in split: option.splits if_splits)
qed (auto simp: py_getitem_def sbind_eq_Inr_iff split: option.splits)

section \<open>Include resolution\<close>


lemma endswith_slash: "endswith s ''/'' \<longleftrightarrow> s \<noteq> [] \<and> last s = CHR ''/''"
  by (cases s rule: rev_cases) (auto simp: endswith_def)

lemma path_head_below:
  assumes "d \<noteq> []" and "last d \<noteq> CHR ''/''"
  shows "path_head (d @ CHR ''/'' # p) =
           d @ rev (dropWhile (\<lambda>c. c = CHR ''/'') (dropWhile (\<lambda>c. c \<noteq> CHR ''/'') (rev p @ [CHR ''/''])))"
proof -
  define X where "X = dropWhile (\<lambda>c. c \<noteq> CHR ''/'') (rev p @ [CHR ''/''])"
  have rd: "rev d = last d # tl (rev d)"
    using assms(1) by (metis list.collapse rev_is_Nil_conv hd_rev)
  have "dropWhile (\<lambda>c. c \<noteq> CHR ''/'') (rev (d @ CHR ''/'' # p)) = X @ rev d"
  proof -
    have "rev (d @ CHR ''/'' # p) = (rev p @ [CHR ''/'']) @ rev d" by simp
    then show ?thesis
      unfolding X_def by (simp only:) (rule dropWhile_append1 [of "CHR ''/''"]; simp)
  qed
  then have head: "rev (dropWhile (\<lambda>c. c \<noteq> CHR ''/'') (rev (d @ CHR ''/'' # p))) = d @ rev X"
    by simp
  have "last d \<in> set (d @ rev X)" using assms(1) by simp
  then have notall: "d @ rev X \<noteq> [] \<and> \<not> list_all (\<lambda>c. c = CHR ''/'') (d @ rev X)"
    using assms(2) by (auto simp: list_all_iff)
  have "dropWhile (\<lambda>c. c = CHR ''/'') (X @ rev d) = dropWhile (\<lambda>c. c = CHR ''/'') X @ rev d"
  proof (cases "\<forall>x \<in> set X. x = CHR ''/''")
    case True
    then have "dropWhile (\<lambda>c. c = CHR ''/'') X = []" by simp
    moreover have "dropWhile (\<lambda>c. c = CHR ''/'') (rev d) = rev d"
      using assms by (cases d rule: rev_cases) auto
    ultimately show ?thesis using True by simp
  next
    case False
    then show ?thesis by auto
  qed
  then show ?thesis
    unfolding path_head_def head Let_def using notall by (simp add: X_def)
qed


lemma construct_include_fails:
  "name \<in> set (include_names n) \<Longrightarrow> isl (inc (posix_join root name)) \<Longrightarrow> isl (construct inc root n)"
  "name \<in> set (concat (map include_names ns)) \<Longrightarrow> isl (inc (posix_join root name)) \<Longrightarrow>
     isl (construct_seq inc root ns)"
  "name \<in> set (concat (map (\<lambda>kn. include_names (fst kn) @ include_names (snd kn)) kns)) \<Longrightarrow>
     isl (inc (posix_join root name)) \<Longrightarrow> isl (construct_map inc root acc kns)"
proof (induction inc root n and inc root ns and inc root acc kns
       rule: construct_construct_seq_construct_map.induct)
qed (fastforce simp: sbind_def split: sum.splits)+



lemma path_head_file: "d \<noteq> [] \<Longrightarrow> last d \<noteq> CHR ''/'' \<Longrightarrow> CHR ''/'' \<notin> set base \<Longrightarrow>
   posix_join (path_head (d @ CHR ''/'' # base)) base = d @ CHR ''/'' # base"
proof -
  assume a: "d \<noteq> []" "last d \<noteq> CHR ''/''" "CHR ''/'' \<notin> set base"
  then have "dropWhile (\<lambda>c. c \<noteq> CHR ''/'') (rev base @ [CHR ''/'']) = [CHR ''/'']"
    by (subst dropWhile_append2) auto
  moreover have "\<not> startswith base ''/''"
    using a(3) by (cases base) (auto simp: startswith_def)
  ultimately show ?thesis
    using a by (simp add: path_head_below posix_join_def endswith_slash)
qed

text \<open>C26. A template that includes itself by its own file name, anywhere in its document,
  never yields a document: at every recursion limit, loading it ends with an exception
  (\<open>RuntimeError\<close> when nothing fails before, otherwise the error of an earlier part).
  The loader does not detect include cycles; it only runs out of nesting levels.\<close>

theorem load_file_self_include:
  assumes "d \<noteq> []" and "last d \<noteq> CHR ''/''" and "CHR ''/'' \<notin> set base"
    and "fs (d @ CHR ''/'' # base) = Some src" and "parse src = Inr node"
    and "base \<in> set (include_names node)"
  shows "\<exists>e. load_file n parse fs (d @ CHR ''/'' # base) = Inl e"
proof -
  have "isl (load_file n parse fs (d @ CHR ''/'' # base))"
  proof (induction n)
    case 0
    show ?case
      using construct_include_fails(1) [OF assms(6), where inc = "\<lambda>_. Inl RuntimeError"] assms(4,5)
      by (simp add: load_step_def)
  next
    case (Suc n)
    then show ?case
      using construct_include_fails(1) [OF assms(6), where inc = "load_file n parse fs"] assms(4,5)
        path_head_file [OF assms(1-3)]
      by (simp add: load_step_def)
  qed
  then show ?thesis by (cases "load_file n parse fs (d @ CHR ''/'' # base)") simp_all
qed

section \<open>Witnesses\<close>


theorem load_file_self_include_witness:
  "\<exists>e. load_file 1000
     (\<lambda>t. if t = ''main'' then Inr (YMap [(YScalar (PStr ''hosts''), YInclude ''missing.yaml''),
                                          (YScalar (PStr ''self''), YInclude ''net.yaml'')])
          else Inr (YScalar (PStr t)))
     (\<lambda>p. if p = ''conf/net.yaml'' then Some ''main'' else None) ''conf/net.yaml'' = Inl e"
  using load_file_self_include [where d = "''conf''" and base = "''net.yaml''" and src = "''main''"
      and n = 1000]
  by simp

end
