(* ===== verification/Package.thy ===== *)
theory Package
  imports PyRuntime
begin

text \<open>
  The packaging descriptor \<^verbatim>\<open>src/setup.py\<close>: one call of \<^verbatim>\<open>setuptools.setup\<close> with
  literal arguments, modelled as a record of those arguments. The call has no behaviour of
  its own to verify; the record documents what the package declares (its requirements
  are the four third-party modules \<^verbatim>\<open>src/iftool.py\<close> imports at lines 29-36, and
  its one script, \<^verbatim>\<open>iftool\<close>, is not a file of the source directory).
\<close>

record package =
  pkg_name :: string
  pkg_version :: string
  pkg_author :: string
  pkg_author_email :: string
  pkg_description :: pyval
  pkg_license :: string
  pkg_py_modules :: "string list"
  pkg_scripts :: "string list"
  pkg_install_requires :: "string list"

text \<open>Lines 2-6 and 12-27. \<^verbatim>\<open>description\<close> is passed a one-element list, not a
  string.\<close>

definition iftool_package :: package where
  "iftool_package =
     \<lparr>pkg_name = ''iftool'', pkg_version = ''0.1'', pkg_author = ''Joe Baldwin'',
      pkg_author_email = ''joe@joebaldwin.com'',
      pkg_description = PList [PStr ''Tool for generating interface configuration files.''],
      pkg_license = ''MIT'', pkg_py_modules = [''iftool''], pkg_scripts = [''iftool''],
      pkg_install_requires = [''docopt'', ''ipaddress'', ''jinja2'', ''pyyaml'']\<rparr>"

end
