(* ===== verification/Spec2Isabelle.thy ===== *)
theory Spec2Isabelle
  imports Configure Loader Package
begin

text \<open>
  \<^bold>\<open>A model of iftool.\<close> \<^verbatim>\<open>src/iftool.py\<close> reads a YAML description of a network,
  finds the target host in it and renders user-supplied Jinja2 templates into the
  network-script files of that host: a VLAN device file when \<^verbatim>\<open>global.vlan\<close> is
  truthy, a route file, a rule file and one file per interface. With \<^verbatim>\<open>--yes\<close> it
  writes them; otherwise it prints a preview of each (a dry run).

  \<^bold>\<open>Theories.\<close>
  \<^item> \<open>Prelude\<close>: the effect model. A computation is a pair of the effects it performed
    (\<open>Stdout\<close> text, \<open>WriteFile\<close> path and content) and either the Python exception
    that stopped it or its value (\<open>'a prog\<close>). \<open>pbind\<close> sequences two statements and
    \<open>pfor\<close> is a \<^verbatim>\<open>for\<close> loop. \<open>written\<close>, \<open>stdout_of\<close> and \<open>fs_after\<close> read a
    trace, and \<open>exit_status\<close> is the status the process ends with.
  \<^item> \<open>PyRuntime\<close>: the parsed document as \<open>pyval\<close>, with dictionaries as association
    lists in iteration order. It also holds the Python 2 built-ins the code uses:
    subscription, iteration, truthiness, \<^verbatim>\<open>sorted\<close>, \<^verbatim>\<open>split\<close>,
    \<^verbatim>\<open>splitlines\<close>, \<^verbatim>\<open>os.path.join\<close>, ASCII encoding and \<^verbatim>\<open>unicode()\<close>. Its
    lemmas show that Python key equality is an equivalence, how lookup behaves after an
    update and under permutation, and which lines \<^verbatim>\<open>splitlines\<close> returns.
  \<^item> \<open>Output\<close>: \<^verbatim>\<open>say\<close>, \<^verbatim>\<open>verbose\<close>, the three global flags (a record passed
    explicitly) and the write-or-preview block that ends every renderer
    (\<open>write_out\<close>, lines 115-123 and their three copies). Its theorems give the
    block's behaviour in each mode, and what \<^verbatim>\<open>--verbose\<close> adds to it.
  \<^item> \<open>HostResolver\<close>: the host loop every renderer starts with (lines 99-106 and their
    copies), as \<open>find_host\<close> and \<open>resolve_host\<close>.
  \<^item> \<open>IPv4Net\<close>: the part of the \<^verbatim>\<open>ipaddress\<close> backport the interface renderer calls
    (\<^verbatim>\<open>IPv4Network(unicode(subnet))\<close>, \<^verbatim>\<open>network_address\<close>, \<^verbatim>\<open>netmask\<close>), on 32-bit
    words. It is library code, so it carries no properties of its own; it is evaluated
    on the example subnets.
  \<^item> \<open>Template\<close>: rendering. The template engine is a parameter (\<open>engine\<close>), so every
    lemma holds for any engine. \<open>interpolate\<close> is one concrete engine (plain
    \<^verbatim>\<open>{{ name }}\<close> substitution), used only by the examples.
  \<^item> \<open>Renderers\<close>: \<open>configure_device\<close>, \<open>configure_routes\<close>, \<open>configure_rules\<close> and
    \<open>configure_interfaces\<close>, statement for statement. Beside them are the pure
    specifications of the file each one writes (\<open>device_plan\<close>, \<open>table_plan\<close>,
    \<open>interfaces_plan\<close>) and the lemmas that each renderer is the host lookup, then its
    specification, then the output block.
  \<^item> \<open>Loader\<close>: \<^verbatim>\<open>CustomLoader\<close> (lines 66-78) and the load at lines 88-89.
    It builds the document from PyYAML's node tree, a parameter of the model. An
    \<^verbatim>\<open>!include\<close> is loaded relative to the including file's directory
    (\<open>path_head\<close>). \<open>load_file n\<close> allows \<open>n\<close> nested levels of includes before the
    interpreter's recursion limit raises \<open>RuntimeError\<close>. Its theorems show:
    \<^item> includes are resolved against the including file's directory: a tree of
      templates with relative includes loads the same wherever it is copied;
    \<^item> a template that includes itself never loads, under every bound;
    \<^item> every loaded document is well formed, which the renderers' lemmas use.
  \<^item> \<open>Package\<close>: the packaging descriptor \<^verbatim>\<open>src/setup.py\<close> as a record of the arguments
    of \<^verbatim>\<open>setup(...)\<close>. It has no behaviour to verify; its two defects (a script that
    does not exist, a list as description) are recorded as findings.
  \<^item> \<open>Configure\<close>: \<open>configure\<close>, with the environment (host name, working
    directory, writable paths) and the document loader as parameters. \<open>configure_plan\<close>
    is the specification of a whole run: the list of files it produces. A theorem shows
    the machine's host name and working directory serve only as defaults.
  \<^item> This theory: \<open>main\<close> (lines 254-269), which sets the flags from the options
    (\<open>flags_of\<close>) and runs \<open>configure\<close>, the example runs, and the properties of a
    whole run.

  \<^bold>\<open>Results.\<close>
  \<^item> A run refines its specification. When \<open>configure_plan\<close> gives a list of files,
    \<^verbatim>\<open>--yes\<close> writes exactly those files in order, and a dry run prints exactly their
    previews.
  \<^item> A dry run never changes a file.
  \<^item> A template that cannot be loaded stops the run before any output.
  \<^item> The well-formedness the loader establishes is what makes the route contexts
    independent of the order of the tables.
  \<^item> An unknown host exits with status 1 after one error line, having written nothing.
  \<^item> \<^verbatim>\<open>--overwrite\<close> is never read.
  \<^item> The host name and working directory are read only for an absent or empty
    \<^verbatim>\<open>--host\<close> or destination.
  \<^item> \<^verbatim>\<open>--verbose\<close> only adds the \<^verbatim>\<open>Writing\<close> line when the path is ASCII.
  \<^item> Includes resolve relative to the including file; include cycles never load.
  \<^item> The theorems also show where the code departs from the specification:
    \<^item> A missing \<^verbatim>\<open>global.vlan\<close> aborts the run with \<^verbatim>\<open>KeyError\<close>.
    \<^item> A key equal to the host can be shadowed by an earlier key with the same short
      name.
    \<^item> The preview drops a final newline.
    \<^item> Non-ASCII content truncates the file.
    \<^item> The verbose message joins the destination twice.
    \<^item> Two tables naming one interface keep only the later one.
    \<^item> A failing interface leaves the earlier interface files written.
    \<^item> With \<^verbatim>\<open>--verbose\<close>, a non-ASCII file name crashes a write that succeeds
      without it.

  \<^bold>\<open>Not modelled.\<close>
  \<^item> YAML scanning, parsing and scalar resolution (PyYAML): a parameter from text to node
    tree. The document order of mapping entries stands for CPython 2's hash order; every
    lemma about the renderers holds for any order.
  \<^item> Jinja2's template language beyond variable substitution: renderers are proved for
    every engine instead.
  \<^item> docopt's parsing of the command line: \<open>main\<close> starts from its dictionary. So
    whether \<^verbatim>\<open>--help\<close> and \<^verbatim>\<open>--version\<close> print and exit is outside the model;
    the \<^verbatim>\<open>version_opt\<close> field only records the key.
  \<^item> The file system is modelled only as which paths can be opened for writing; a file
    written twice keeps the last content (\<open>fs_after\<close>).
  \<^item> Bounds and fuel: every loop of the program runs over a finite list. The only
    recursion that need not end is through \<^verbatim>\<open>!include\<close>. The interpreter's recursion
    limit is modelled as an explicit bound on the include depth, and the theorems hold
    for every bound, since the exact limit depends on CPython's stack frames.
  \<^item> Every statement of \<^verbatim>\<open>src/iftool.py\<close> and \<^verbatim>\<open>src/setup.py\<close> is modelled.
    What remains are the libraries they call (PyYAML, Jinja2, docopt), which the model
    takes as parameters or as their result.
\<close>

section \<open>The entry point\<close>

text \<open>\<^verbatim>\<open>main\<close>: the three globals are set from the options, then the command runs.\<close>

definition flags_of :: "arguments \<Rightarrow> flags" where
  "flags_of arguments =
     \<lparr>VERBOSE = verbose_opt arguments, YES = yes_opt arguments,
      OVERWRITE = overwrite_opt arguments\<rparr>"

definition main :: "env \<Rightarrow> engine \<Rightarrow> loader \<Rightarrow> arguments \<Rightarrow> unit prog" where
  "main ev render load arguments =
     (if configure_cmd arguments then configure (flags_of arguments) ev render load arguments
      else ret ())"

section \<open>An example run\<close>

text \<open>The environment, command lines and loader of the example runs: the document of
  \<open>Renderers.example_doc\<close>, host \<^verbatim>\<open>web1.example.com\<close>, working directory
  \<^verbatim>\<open>/etc/net\<close>. \<open>example_files\<close> is what the specification says a run produces on it.\<close>

definition example_env :: env where
  "example_env = \<lparr>hostname = ''web1.example.com'', cwd = ''/etc/net'', writable = (\<lambda>_. True)\<rparr>"

definition example_arguments :: "string option \<Rightarrow> bool \<Rightarrow> arguments" where
  "example_arguments host yes =
     \<lparr>configure_cmd = True, host_arg = host, template_arg = ''net.yaml'', destination = None,
      verbose_opt = False, yes_opt = yes, overwrite_opt = False, version_opt = False\<rparr>"

definition example_files :: "(string \<times> string) list" where
  "example_files =
     [(''/etc/net/vlan-eth0'', ''VLAN=yes''),
      (''/etc/net/route-eth0'',
       ''[{table: main, device: eth0, ifname: eth0, subnet: 10.0.0.0/24, gateway: 10.0.0.1}, {table: office, device: eth0, ifname: eth1, subnet: 10.1.0.0/24, gateway: 10.1.0.1}]''),
      (''/etc/net/rule-eth0'',
       ''[{table: main, device: eth0, ifname: eth0, subnet: 10.0.0.0/24, gateway: 10.0.0.1}, {table: office, device: eth0, ifname: eth1, subnet: 10.1.0.0/24, gateway: 10.1.0.1}]''),
      (''/etc/net/ifcfg-eth0'', ''IPADDR=10.0.0.5''),
      (''/etc/net/ifcfg-eth1'', ''IPADDR=10.1.0.5'')]"

definition example_load :: "(pyval \<times> pyval) list \<Rightarrow> loader" where
  "example_load global = (\<lambda>_. Inr (example_doc global ''eth1'' ''10.1.0.0/24''))"

lemma example_plan:
  "configure_plan example_env interpolate (example_load [(PStr ''vlan'', PInt 100)])
     (example_arguments None yes) = Inr example_files"
  by (simp add: configure_plan_def example_load_def with_defaults_def str_or_def example_env_def example_arguments_def
      example_files_def render_eval ipv4_eval device_plan_def table_plan_def interfaces_plan_def
      dec_int_def Let_def)

text \<open>\<open>main\<close> reads the argument dictionary only through the command, the template, the
  host, the destination and the \<^verbatim>\<open>--verbose\<close> and \<^verbatim>\<open>--yes\<close> options.\<close>

lemma main_options_cong:
  assumes "configure_cmd a = configure_cmd a'" and "template_arg a = template_arg a'"
    and "host_arg a = host_arg a'" and "destination a = destination a'"
    and "verbose_opt a = verbose_opt a'" and "yes_opt a = yes_opt a'"
  shows "main ev render load a = main ev render load a'"
proof -
  have f: "flags_of a' = (flags_of a)\<lparr>OVERWRITE := overwrite_opt a'\<rparr>"
    using assms(5,6) by (simp add: flags_of_def)
  have "configure (flags_of a') ev render load a' = configure (flags_of a) ev render load a'"
    by (simp only: f configure_overwrite)
  also have "\<dots> = configure (flags_of a) ev render load a"
    using assms(2-4) by (intro configure_arguments_cong) simp_all
  finally show ?thesis
    using assms(1) by (simp add: main_def)
qed

section \<open>Properties of a whole run\<close>

text \<open>C1. Without \<^verbatim>\<open>--yes\<close> a run leaves every file as it was, whatever the
  document, the templates and the environment, and however the run ends.\<close>

theorem main_dry_run_writes_nothing:
  "\<not> yes_opt arguments \<Longrightarrow> fs_after (fst (main ev render load arguments)) fs = fs"
  by (simp add: main_def flags_of_def configure_dry_writes_nothing fs_after_no_writes)


text \<open>C3. Without \<^verbatim>\<open>--yes\<close>, the same run prints the preview of each of the files
  a confirmed run writes, in the same order, and writes nothing.\<close>

theorem main_dry_run_previews_plan:
  assumes "configure_cmd arguments" and "\<not> yes_opt arguments"
    and "configure_plan ev render load arguments = Inr files"
    and "\<forall>(f, c) \<in> set files. is_ascii f \<and> is_ascii c"
  shows "main ev render load arguments =
           (map Stdout (concat (map (\<lambda>(f, c). preview f c) files)), Inr ())"
proof -
  have "configure (flags_of arguments) ev render load arguments =
          (concat (map (\<lambda>x. map Stdout (preview (fst x) (snd x))) files), Inr ())"
    using assms(2-4)
    by (intro configure_runs_plan) (auto simp: flags_of_def write_out_dry dry_run_preview)
  then show ?thesis
    using assms(1) by (simp add: main_def map_concat case_prod_beta comp_def)
qed

text \<open>C4. When no host key matches the target, the run prints the error line and exits
  with status 1 before any file is written or previewed.\<close>

theorem main_host_not_found:
  assumes "configure_cmd arguments"
    and "load (template_arg (with_defaults ev arguments)) = Inr configuration"
    and "py_path configuration [''global'', ''vlan''] = Inr vlan"
    and "py_getitem configuration (PStr ''hosts'') = Inr hosts" and "py_iter hosts = Inr keys"
    and "find_host (PStr (str_or (host_arg arguments) (hostname ev))) keys = Inr None"
  shows "exit_status (main ev render load arguments) = 1
         \<and> written (fst (main ev render load arguments)) = []
         \<and> stdout_of (fst (main ev render load arguments)) =
              not_found_msg (PStr (str_or (host_arg arguments) (hostname ev))) @ linesep"
proof -
  have "resolve_host configuration (host_arg (with_defaults ev arguments)) =
          ([Stdout (not_found_msg (PStr (str_or (host_arg arguments) (hostname ev))) @ linesep)],
           Inl (SystemExit 1))"
    using assms(4-6) by (simp add: resolve_host_not_found host_arg_with_defaults)
  then show ?thesis
    using configure_resolve_fails [where load = load and fl = "flags_of arguments", OF assms(2,3)] assms(1)
    by (simp add: main_def exit_status_def)
qed

text \<open>C5. A document whose \<^verbatim>\<open>global\<close> section has no \<^verbatim>\<open>vlan\<close> key stops the run
  with \<^verbatim>\<open>KeyError\<close> before anything is printed or written: the key the specification
  calls optional is required by the code.\<close>

theorem main_vlan_absent:
  assumes "configure_cmd arguments"
    and "load (template_arg (with_defaults ev arguments)) = Inr configuration"
    and "py_getitem configuration (PStr ''global'') = Inr (PDict g)"
    and "dict_get g (PStr ''vlan'') = None"
  shows "main ev render load arguments = ([], Inl KeyError)"
  using assms configure_vlan_fails [where load = load and e = KeyError, OF assms(2)]
  by (simp add: main_def py_getitem_def py_hashable_def)

text \<open>C6. The \<^verbatim>\<open>--overwrite\<close> option has no effect: a run with it and a run without
  it perform the same effects and end the same way, whatever files already exist.\<close>

theorem main_ignores_overwrite:
  "main ev render load (arguments\<lparr>overwrite_opt := b\<rparr>) = main ev render load arguments"
  by (rule main_options_cong) simp_all

text \<open>C7. A template that cannot be opened or parsed stops the run with the loader's
  exception before anything is printed or written.\<close>

theorem main_load_fails:
  assumes "configure_cmd arguments" and "load (template_arg (with_defaults ev arguments)) = Inl e"
  shows "main ev render load arguments = ([], Inl e)"
  using assms by (simp add: main_def configure_load_fails)

text \<open>C8. For every document the loader produces, the contexts given to the route and
  rule templates do not depend on the order of the tables in the document: the loader
  establishes the well-formedness the renderers need.\<close>

theorem loaded_tables_order_independent:
  assumes "\<And>src n. parse src = Inr n \<Longrightarrow> node_wf n"
    and "load_file k parse fs path = Inr configuration"
    and "py_getitem configuration (PStr ''tables'') = Inr (PDict kvs)"
    and "py_getitem configuration' (PStr ''tables'') = Inr (PDict kvs')"
    and "mset kvs = mset kvs'"
  shows "table_contexts configuration device = table_contexts configuration' device"
proof -
  have "doc_wf (PDict kvs)"
    using doc_wf_getitem [OF load_file_doc_wf [OF assms(1,2)] assms(3)] .
  then have "dict_wf kvs" by simp
  then show ?thesis
    using assms(3,4) tables_perm [OF _ assms(5)] by (simp add: table_contexts_def py_iter_def)
qed

section \<open>Witnesses\<close>

theorem main_dry_run_writes_nothing_witness:
  "fs_after (fst (main example_env interpolate (example_load [(PStr ''vlan'', PInt 100)])
     (example_arguments None False))) Map.empty = Map.empty"
  using main_dry_run_writes_nothing [where arguments = "example_arguments None False"]
  by (simp add: example_arguments_def)


theorem main_dry_run_previews_plan_witness:
  "main example_env interpolate (example_load [(PStr ''vlan'', PInt 100)]) (example_arguments None False)
   = (map Stdout (concat (map (\<lambda>(f, c). preview f c) example_files)), Inr ())"
  by (rule main_dry_run_previews_plan [OF _ _ example_plan])
     (simp_all add: example_arguments_def example_files_def is_ascii_def)

theorem main_host_not_found_witness:
  "exit_status (main example_env interpolate (example_load [(PStr ''vlan'', PInt 100)])
     (example_arguments (Some ''db1'') True)) = 1
   \<and> written (fst (main example_env interpolate (example_load [(PStr ''vlan'', PInt 100)])
     (example_arguments (Some ''db1'') True))) = []
   \<and> stdout_of (fst (main example_env interpolate (example_load [(PStr ''vlan'', PInt 100)])
     (example_arguments (Some ''db1'') True))) = ''ERROR: db1 not found in template hosts section'' @ linesep"
proof -
  have "str_or (host_arg (example_arguments (Some ''db1'') True)) (hostname example_env) = ''db1''"
    by (simp add: example_arguments_def str_or_def)
  moreover have "not_found_msg (PStr ''db1'') = ''ERROR: db1 not found in template hosts section''"
    by (simp add: not_found_msg_def py_str_def)
  moreover have "exit_status (main example_env interpolate (example_load [(PStr ''vlan'', PInt 100)])
     (example_arguments (Some ''db1'') True)) = 1
   \<and> written (fst (main example_env interpolate (example_load [(PStr ''vlan'', PInt 100)])
     (example_arguments (Some ''db1'') True))) = []
   \<and> stdout_of (fst (main example_env interpolate (example_load [(PStr ''vlan'', PInt 100)])
     (example_arguments (Some ''db1'') True))) =
       not_found_msg (PStr (str_or (host_arg (example_arguments (Some ''db1'') True)) (hostname example_env)))
       @ linesep"
    by (rule main_host_not_found [where configuration = "example_doc [(PStr ''vlan'', PInt 100)] ''eth1'' ''10.1.0.0/24''"
          and vlan = "PInt 100" and hosts = "PDict [(PStr ''web1'', example_host)]" and keys = "[PStr ''web1'']"])
       (simp_all add: example_arguments_def example_load_def with_defaults_def str_or_def render_eval)
  ultimately show ?thesis by simp
qed

theorem main_vlan_absent_witness:
  "main example_env interpolate (example_load []) (example_arguments None True) = ([], Inl KeyError)"
  by (rule main_vlan_absent [where configuration = "example_doc [] ''eth1'' ''10.1.0.0/24''" and g = "[]"])
     (simp_all add: example_arguments_def example_load_def render_eval)

theorem main_load_fails_witness:
  "main example_env interpolate (load_file 20 (\<lambda>_. Inr (YScalar PNone)) (\<lambda>_. None))
     (example_arguments None True) = ([], Inl IOError)"
  by (rule main_load_fails)
     (simp_all add: example_arguments_def with_defaults_def load_step_def eval_nat_numeral)

theorem loaded_tables_order_independent_witness:
  "table_contexts (PDict [(PStr ''tables'', PDict [(PStr ''a'', PInt 1), (PStr ''b'', PInt 2)])])
     (PStr ''eth0'')
   = table_contexts (PDict [(PStr ''tables'', PDict [(PStr ''b'', PInt 2), (PStr ''a'', PInt 1)])])
     (PStr ''eth0'')"
  by (rule loaded_tables_order_independent [where k = 0
        and parse = "\<lambda>_. Inr (YMap [(YScalar (PStr ''tables''),
          YMap [(YScalar (PStr ''a''), YScalar (PInt 1)), (YScalar (PStr ''b''), YScalar (PInt 2))])])"
        and fs = "\<lambda>p. if p = ''net.yaml'' then Some ''tables: {a: 1, b: 2}'' else None"
        and path = "''net.yaml''"
        and kvs = "[(PStr ''a'', PInt 1), (PStr ''b'', PInt 2)]"
        and kvs' = "[(PStr ''b'', PInt 2), (PStr ''a'', PInt 1)]"])
     (auto simp: load_step_def path_head_def py_getitem_def py_hashable_def py_eq_def py_num_def
        add_mset_commute)

end
